theory Spec2Isabelle
  imports Main "HOL-Library.Sublist" "HOL-Library.Word"
begin

section \<open>Errors of github.com/pkg/errors\<close>

text \<open>
  The source builds its errors with \<^verbatim>\<open>errors.New\<close>, \<^verbatim>\<open>errors.Wrap\<close> and
  \<^verbatim>\<open>errors.Wrapf\<close>. An error is either a fresh one with a message, or a cause wrapped
  with a message. Errors produced by the transport and by the parser are values of the
  same type, handed in from outside.
\<close>

datatype error = errors_New string | errors_Wrap error string

text \<open>The message of an error: a wrapper prints its own message, a colon and its cause.\<close>

fun Error :: "error \<Rightarrow> string" where
  "Error (errors_New msg) = msg"
| "Error (errors_Wrap err msg) = msg @ '': '' @ Error err"

section \<open>prysmgrpc: the RANDAO domain\<close>

type_synonym byte = "8 word"

text \<open>\<^verbatim>\<open>spec.DomainType\<close> is a \<^verbatim>\<open>[4]byte\<close>; its zero value is four zero bytes.\<close>

type_synonym DomainType = "byte list"

definition zero_DomainType :: DomainType where
  "zero_DomainType = replicate 4 0"

text \<open>
  Go's builtin \<^verbatim>\<open>copy(dst, src)\<close> overwrites the first
  \<^verbatim>\<open>min(len(dst), len(src))\<close> elements of \<open>dst\<close> and leaves the rest.
\<close>

definition copy :: "'a list \<Rightarrow> 'a list \<Rightarrow> 'a list" where
  "copy dst src = take (length dst) src @ drop (length src) dst"

text \<open>
  A context is the background context or one derived from a parent with a timeout
  (a duration in nanoseconds).
\<close>

datatype Context = Background | WithTimeout Context nat

text \<open>The reply of \<^verbatim>\<open>GetBeaconConfig\<close>: a transport error or the configuration map.\<close>

type_synonym config = "string \<rightharpoonup> string"

text \<open>
  The node behind the connection, as a call-counting transport: \<open>calls\<close> is the number
  of requests issued so far, and \<open>reply\<close> gives the answer to the request with a given
  number, made under a given context.
\<close>

record upstream =
  calls :: nat
  reply :: "nat \<Rightarrow> Context \<Rightarrow> error + config"

definition GetBeaconConfig :: "Context \<Rightarrow> upstream \<Rightarrow> (error + config) \<times> upstream" where
  "GetBeaconConfig opCtx u = (reply u (calls u) opCtx, u\<lparr>calls := calls u + 1\<rparr>)"

text \<open>
  The fields of the prysmgrpc service that \<^verbatim>\<open>RANDAODomain\<close> uses. The cache slot
  \<open>randaoDomain\<close> is a pointer: \<open>None\<close> is nil.
\<close>

record prysmgrpc_Service =
  timeout :: nat
  randaoDomain :: "DomainType option"

text \<open>
  \<^verbatim>\<open>parseConfigByteArray\<close> and the \<^verbatim>\<open>%q\<close> verb of the format (Go's
  \<^verbatim>\<open>strconv.Quote\<close>) are not part of the file; the model takes both as parameters
  \<open>parse\<close> and \<open>quote\<close>.
\<close>

definition RANDAODomain ::
  "(string \<Rightarrow> error + byte list) \<Rightarrow> (string \<Rightarrow> string) \<Rightarrow> Context \<Rightarrow> prysmgrpc_Service \<times> upstream
    \<Rightarrow> (error + DomainType) \<times> prysmgrpc_Service \<times> upstream" where
  "RANDAODomain parse quote ctx st =
     (case st of (s, u) \<Rightarrow>
       (case randaoDomain s of
          Some d \<Rightarrow> (Inr d, s, u)
        | None \<Rightarrow>
           (case GetBeaconConfig (WithTimeout ctx (prysmgrpc_Service.timeout s)) u of
              (Inl err, u') \<Rightarrow> (Inl (errors_Wrap err ''failed to obtain configuration''), s, u')
            | (Inr config, u') \<Rightarrow>
               (case config ''DomainRandao'' of
                  None \<Rightarrow> (Inl (errors_New ''config did not provide DomainRandao value''), s, u')
                | Some val \<Rightarrow>
                   (case parse val of
                      Inl err \<Rightarrow>
                        (Inl (errors_Wrap err (''failed to convert value '' @ quote val
                                         @ '' for DomainRandao'')), s, u')
                    | Inr tmp \<Rightarrow>
                        (let domainType = copy zero_DomainType tmp
                         in (Inr domainType, s\<lparr>randaoDomain := Some domainType\<rparr>, u')))))))"

text \<open>A caller that invokes \<^verbatim>\<open>RANDAODomain\<close> several times, one call after the other.\<close>

fun RANDAODomain_calls ::
  "(string \<Rightarrow> error + byte list) \<Rightarrow> (string \<Rightarrow> string) \<Rightarrow> Context list
    \<Rightarrow> prysmgrpc_Service \<times> upstream
    \<Rightarrow> (error + DomainType) list \<times> prysmgrpc_Service \<times> upstream" where
  "RANDAODomain_calls parse quote [] st = ([], st)"
| "RANDAODomain_calls parse quote (ctx # ctxs) st =
     (case RANDAODomain parse quote ctx st of
        (r, st') \<Rightarrow>
          (case RANDAODomain_calls parse quote ctxs st' of
             (rs, st'') \<Rightarrow> (r # rs, st'')))"

subsection \<open>Goroutines calling \<^verbatim>\<open>RANDAODomain\<close> at the same time\<close>

text \<open>
  The method takes no lock, so calls from several goroutines interleave. The positions
  of one call: before the nil check of line 27, before the request of lines 28 to 31,
  before the processing of the reply in lines 32 to 46, before the final read of the
  slot in line 48, and after its return. A nil slot at line 48 would be a nil pointer
  dereference.
\<close>

datatype goroutine =
  AtCheck Context
| AtFetch Context
| AtReply "error + config"
| AtReturn
| Returned "error + DomainType"
| Panicked

fun step ::
  "(string \<Rightarrow> error + byte list) \<Rightarrow> (string \<Rightarrow> string) \<Rightarrow> goroutine
    \<Rightarrow> prysmgrpc_Service \<times> upstream \<Rightarrow> goroutine \<times> prysmgrpc_Service \<times> upstream" where
  "step parse quote (AtCheck c) (s, u) =
     (case randaoDomain s of None \<Rightarrow> (AtFetch c, s, u) | Some d \<Rightarrow> (AtReturn, s, u))"
| "step parse quote (AtFetch c) (s, u) =
     (case GetBeaconConfig (WithTimeout c (prysmgrpc_Service.timeout s)) u of (r, u') \<Rightarrow> (AtReply r, s, u'))"
| "step parse quote (AtReply r) (s, u) =
     (case r of
        Inl err \<Rightarrow> (Returned (Inl (errors_Wrap err ''failed to obtain configuration'')), s, u)
      | Inr config \<Rightarrow>
         (case config ''DomainRandao'' of
            None \<Rightarrow> (Returned (Inl (errors_New ''config did not provide DomainRandao value'')), s, u)
          | Some val \<Rightarrow>
             (case parse val of
                Inl err \<Rightarrow>
                  (Returned (Inl (errors_Wrap err (''failed to convert value '' @ quote val
                                             @ '' for DomainRandao''))), s, u)
              | Inr tmp \<Rightarrow>
                  (AtReturn, s\<lparr>randaoDomain := Some (copy zero_DomainType tmp)\<rparr>, u))))"
| "step parse quote AtReturn (s, u) =
     (case randaoDomain s of None \<Rightarrow> (Panicked, s, u) | Some d \<Rightarrow> (Returned (Inr d), s, u))"
| "step parse quote (Returned r) (s, u) = (Returned r, s, u)"
| "step parse quote Panicked (s, u) = (Panicked, s, u)"

text \<open>
  A schedule names, step by step, the goroutine that moves next; a name beyond the list
  of goroutines moves nobody.
\<close>

fun interleave ::
  "(string \<Rightarrow> error + byte list) \<Rightarrow> (string \<Rightarrow> string) \<Rightarrow> nat list
    \<Rightarrow> goroutine list \<times> prysmgrpc_Service \<times> upstream
    \<Rightarrow> goroutine list \<times> prysmgrpc_Service \<times> upstream" where
  "interleave parse quote [] x = x"
| "interleave parse quote (i # sched) (gs, st) =
     (if i < length gs
      then (case step parse quote (gs ! i) st of
              (g', st') \<Rightarrow> interleave parse quote sched (gs[i := g'], st'))
      else interleave parse quote sched (gs, st))"

subsection \<open>Stand-ins for what is outside the file\<close>

text \<open>
  Modelled from the spec: \<^verbatim>\<open>parseConfigByteArray\<close> is missing from the source. The
  spec describes the configuration value as a hex byte array, gives
  \<^verbatim>\<open>"0x01000000"\<close> as the four bytes 01 00 00 00, and names an odd-length hex
  string and an invalid encoding as undecodable. The parser takes only the string, so it
  does not check the number of bytes.
\<close>

definition fromHexChar :: "char \<Rightarrow> byte option" where
  "fromHexChar c =
     (let n = (of_char c :: nat)
      in if 48 \<le> n \<and> n \<le> 57 then Some (of_nat (n - 48))
         else if 97 \<le> n \<and> n \<le> 102 then Some (of_nat (n - 87))
         else if 65 \<le> n \<and> n \<le> 70 then Some (of_nat (n - 55))
         else None)"

fun decode_hex :: "string \<Rightarrow> error + byte list" where
  "decode_hex [] = Inr []"
| "decode_hex [c] = Inl (errors_New ''odd length hex string'')"
| "decode_hex (a # b # cs) =
     (case (fromHexChar a, fromHexChar b) of
        (Some h, Some l) \<Rightarrow>
          (case decode_hex cs of
             Inl err \<Rightarrow> Inl err
           | Inr bs \<Rightarrow> Inr ((h * 16 + l) # bs))
      | _ \<Rightarrow> Inl (errors_New ''invalid byte''))"

definition parseConfigByteArray :: "string \<Rightarrow> error + byte list" where
  "parseConfigByteArray val =
     (case val of
        a # b # cs \<Rightarrow>
          (if a = CHR ''0'' \<and> b = CHR ''x'' then decode_hex cs
           else Inl (errors_New ''missing 0x prefix''))
      | _ \<Rightarrow> Inl (errors_New ''missing 0x prefix''))"

text \<open>
  A quoting function for printable text without quotes or backslashes, where Go's
  \<^verbatim>\<open>%q\<close> only adds the surrounding double quotes.
\<close>

definition quote_plain :: "string \<Rightarrow> string" where
  "quote_plain val = [CHR 0x22] @ val @ [CHR 0x22]"

text \<open>
  A scripted transport: the request with number \<open>n\<close> gets the \<open>n\<close>-th reply of the
  script, and every request after the script's end fails.
\<close>

definition scripted :: "(error + config) list \<Rightarrow> nat \<Rightarrow> Context \<Rightarrow> error + config" where
  "scripted rs n opCtx = (if n < length rs then rs ! n else Inl (errors_New ''transport is closing''))"

definition randao_config :: config where
  "randao_config = [''DomainRandao'' \<mapsto> ''0x01000000'']"

definition fresh_service :: prysmgrpc_Service where
  "fresh_service = \<lparr>timeout = 2000000000, randaoDomain = None\<rparr>"

text \<open>A transport that gives every request the same reply.\<close>

definition always :: "error + config \<Rightarrow> nat \<Rightarrow> Context \<Rightarrow> error + config" where
  "always r n opCtx = r"

definition node_replying :: "config \<Rightarrow> upstream" where
  "node_replying cfg = \<lparr>calls = 0, reply = always (Inr cfg)\<rparr>"

definition node_down :: upstream where
  "node_down = \<lparr>calls = 0, reply = scripted []\<rparr>"

definition node_ok_once :: upstream where
  "node_ok_once = \<lparr>calls = 0, reply = scripted [Inr randao_config]\<rparr>"

definition node_failing_once :: upstream where
  "node_failing_once =
     \<lparr>calls = 0, reply = scripted [Inl (errors_New ''connection refused''), Inr randao_config]\<rparr>"

text \<open>
  When a context is done, as the documentation of Go's \<^verbatim>\<open>context\<close> package gives
  it: the background context never is; a context made by \<^verbatim>\<open>WithTimeout\<close> is done
  when its own deadline has passed or its cancel function has been called, or when its
  parent is done. The predicate \<open>fired\<close> tells for which contexts the first of these
  has happened.
\<close>

fun Done :: "(Context \<Rightarrow> bool) \<Rightarrow> Context \<Rightarrow> bool" where
  "Done fired Background = False"
| "Done fired (WithTimeout parent d) = (fired (WithTimeout parent d) \<or> Done fired parent)"

text \<open>
  A transport that honours the context of a request, as a gRPC client does: a request
  under a context that is done fails, every other request gets the configuration.
\<close>

definition honouring :: "(Context \<Rightarrow> bool) \<Rightarrow> config \<Rightarrow> nat \<Rightarrow> Context \<Rightarrow> error + config" where
  "honouring fired cfg n opCtx =
     (if Done fired opCtx then Inl (errors_New ''context canceled'') else Inr cfg)"

definition node_honouring :: "(Context \<Rightarrow> bool) \<Rightarrow> config \<Rightarrow> upstream" where
  "node_honouring fired cfg = \<lparr>calls = 0, reply = honouring fired cfg\<rparr>"

text \<open>
  A caller's context, and the situation in which the caller has cancelled it and nothing
  else has happened.
\<close>

definition caller_context :: Context where
  "caller_context = WithTimeout Background 60000000000"

definition fired_only :: "Context \<Rightarrow> Context \<Rightarrow> bool" where
  "fired_only x y = (y = x)"

section \<open>tekuhttp: the service and its constructor\<close>

text \<open>
  \<^verbatim>\<open>sync.RWMutex\<close>: free, held by one writer, or held by a number of readers.
  \<^verbatim>\<open>Lock\<close> returns once the mutex is free; while it is held the caller
  waits, which is \<open>None\<close> here. \<^verbatim>\<open>Unlock\<close> of a mutex that is not
  write-locked is a fatal error, \<open>None\<close> as well.
\<close>

datatype RWMutex = Unlocked | WriteLocked | ReadLocked nat

definition Lock :: "RWMutex \<Rightarrow> RWMutex option" where
  "Lock m = (if m = Unlocked then Some WriteLocked else None)"

definition Unlock :: "RWMutex \<Rightarrow> RWMutex option" where
  "Unlock m = (if m = WriteLocked then Some Unlocked else None)"

text \<open>A registered handler, known by its identity.\<close>

datatype BeaconChainHeadUpdatedHandler = Handler nat

datatype URL = URL string

record http_Transport =
  MaxIdleConns :: nat
  MaxIdleConnsPerHost :: nat
  IdleConnTimeout :: nat

record http_Client =
  Transport :: http_Transport

text \<open>The parameters that \<^verbatim>\<open>New\<close> reads after they have been parsed and checked.\<close>

record parameters =
  logLevel :: int
  address :: string
  timeout :: nat

record Service =
  ctx :: Context
  base :: URL
  address :: string
  client :: http_Client
  timeout :: nat
  genesisTime :: "nat option"
  genesisValidatorsRoot :: "byte list"
  beaconChainHeadUpdatedMutex :: RWMutex
  beaconChainHeadUpdatedHandlers :: "BeaconChainHeadUpdatedHandler list"

text \<open>
  \<^verbatim>\<open>GenesisTime\<close> is a method of the service that is not in the file: the model
  takes it as a parameter \<open>GenesisTime\<close>, a function of the context, the service and the
  node (of any type \<open>'w\<close>) that returns an error or the time, with the service and the
  node as it leaves them.
\<close>

definition fetchStaticValues ::
  "(Context \<Rightarrow> Service \<times> 'w \<Rightarrow> (error + nat) \<times> Service \<times> 'w) \<Rightarrow> Context \<Rightarrow> Service \<times> 'w
    \<Rightarrow> error option \<times> Service \<times> 'w" where
  "fetchStaticValues GenesisTime c st =
     (case GenesisTime c st of
        (Inl err, st') \<Rightarrow> (Some (errors_Wrap err ''failed to fetch genesis time''), st')
      | (Inr t, st') \<Rightarrow> (None, st'))"

text \<open>
  The service as \<^verbatim>\<open>New\<close> builds it in lines 164 to 187, before the probe: the HTTP
  client, the fields taken from the parameters, and the zero value everywhere else.
\<close>

definition new_Service :: "Context \<Rightarrow> URL \<Rightarrow> parameters \<Rightarrow> Service" where
  "new_Service c b ps =
     \<lparr>ctx = c, base = b, address = parameters.address ps,
      client = \<lparr>Transport = \<lparr>MaxIdleConns = 16, MaxIdleConnsPerHost = 16,
                               IdleConnTimeout = 384 * 1000000000\<rparr>\<rparr>,
      timeout = parameters.timeout ps, genesisTime = None, genesisValidatorsRoot = [],
      beaconChainHeadUpdatedMutex = Unlocked, beaconChainHeadUpdatedHandlers = []\<rparr>"

text \<open>
  \<^verbatim>\<open>parseAndCheckParameters\<close> and \<^verbatim>\<open>url.Parse\<close> are parameters too. The
  constructor returns an error or the service, never both, and the node as the calls
  left it. Setting the log level has no part in the result. The goroutine started in
  lines 195 to 199 runs \<open>close\<close> once the context is done; it changes nothing before
  \<^verbatim>\<open>New\<close> returns.
\<close>

definition New ::
  "('p \<Rightarrow> error + parameters) \<Rightarrow> (string \<Rightarrow> error + URL)
    \<Rightarrow> (Context \<Rightarrow> Service \<times> 'w \<Rightarrow> (error + nat) \<times> Service \<times> 'w)
    \<Rightarrow> Context \<Rightarrow> 'p \<Rightarrow> 'w \<Rightarrow> (error + Service) \<times> 'w" where
  "New parseAndCheckParameters url_Parse GenesisTime c params w =
     (case parseAndCheckParameters params of
        Inl err \<Rightarrow> (Inl (errors_Wrap err ''problem with parameters''), w)
      | Inr ps \<Rightarrow>
         (let addr = (if \<not> prefix ''http'' (parameters.address ps)
                      then ''http://'' @ parameters.address ps
                      else parameters.address ps)
          in (case url_Parse addr of
                Inl err \<Rightarrow> (Inl (errors_Wrap err ''invalid URL''), w)
              | Inr b \<Rightarrow>
                 (case fetchStaticValues GenesisTime c (new_Service c b ps, w) of
                    (Some err, s', w') \<Rightarrow>
                      (Inl (errors_Wrap err ''failed to confirm node connection''), w')
                  | (None, s', w') \<Rightarrow> (Inr s', w')))))"

definition Name :: "Service \<Rightarrow> string" where
  "Name s = ''Teku (HTTP)''"

definition Address :: "Service \<Rightarrow> string" where
  "Address s = address s"

text \<open>\<open>close\<close> takes the write lock, replaces the handlers by an empty slice, and unlocks.\<close>

definition close :: "Service \<Rightarrow> Service option" where
  "close s =
     (case Lock (beaconChainHeadUpdatedMutex s) of
        None \<Rightarrow> None
      | Some m \<Rightarrow>
         (let s1 = s\<lparr>beaconChainHeadUpdatedMutex := m\<rparr>;
              s2 = s1\<lparr>beaconChainHeadUpdatedHandlers := []\<rparr>
          in (case Unlock (beaconChainHeadUpdatedMutex s2) of
                None \<Rightarrow> None
              | Some m' \<Rightarrow> Some (s2\<lparr>beaconChainHeadUpdatedMutex := m'\<rparr>))))"

text \<open>\<open>close\<close> invoked \<open>n\<close> times in a row.\<close>

fun close_times :: "nat \<Rightarrow> Service \<Rightarrow> Service option" where
  "close_times 0 s = Some s"
| "close_times (Suc n) s = (case close s of None \<Rightarrow> None | Some s' \<Rightarrow> close_times n s')"

subsection \<open>Stand-ins for what is outside the file\<close>

text \<open>
  Modelled from the spec: \<^verbatim>\<open>parseAndCheckParameters\<close> is missing from the source.
  The spec requires an address and a timeout greater than zero, and a descriptive error
  otherwise. The options are taken as already applied to a record of parameters.
\<close>

definition parseAndCheckParameters :: "parameters \<Rightarrow> error + parameters" where
  "parseAndCheckParameters ps =
     (if parameters.address ps = [] then Inl (errors_New ''no address specified'')
      else if parameters.timeout ps = 0 then Inl (errors_New ''no timeout specified'')
      else Inr ps)"

text \<open>A URL parser that accepts every text.\<close>

definition url_Parse :: "string \<Rightarrow> error + URL" where
  "url_Parse rawURL = Inr (URL rawURL)"

text \<open>
  Modelled from the spec: \<^verbatim>\<open>GenesisTime\<close> is missing from the source. The spec
  describes every getter of an immutable parameter as a lazy cached fetch: a filled slot
  is returned at once; otherwise one request is made, a failure is returned and leaves
  the slot empty, a success fills the slot. The node is reduced to whether it can be
  reached, and it reports the genesis time 1606824023.
\<close>

definition GenesisTime :: "Context \<Rightarrow> Service \<times> bool \<Rightarrow> (error + nat) \<times> Service \<times> bool" where
  "GenesisTime c st =
     (case st of (s, reachable) \<Rightarrow>
       (case genesisTime s of
          Some t \<Rightarrow> (Inr t, s, reachable)
        | None \<Rightarrow>
           (if reachable
            then (Inr 1606824023, s\<lparr>genesisTime := Some 1606824023\<rparr>, reachable)
            else (Inl (errors_New ''connection refused''), s, reachable))))"

definition teku_parameters :: parameters where
  "teku_parameters = \<lparr>logLevel = 1, address = ''localhost:5051'', timeout = 2000000000\<rparr>"

text \<open>A service with two registered handlers.\<close>

definition busy_service :: Service where
  "busy_service =
     (new_Service Background (URL ''http://localhost:5051'') teku_parameters)
       \<lparr>beaconChainHeadUpdatedHandlers := [Handler 1, Handler 2]\<rparr>"

section \<open>Properties of \<^verbatim>\<open>RANDAODomain\<close>\<close>

subsection \<open>The five ways through the method\<close>

lemma RANDAODomain_hit:
  "randaoDomain s = Some d \<Longrightarrow> RANDAODomain parse quote c (s, u) = (Inr d, s, u)"
  by (simp add: RANDAODomain_def)

lemma RANDAODomain_upstream_error:
  "randaoDomain s = None \<Longrightarrow>
   reply u (calls u) (WithTimeout c (prysmgrpc_Service.timeout s)) = Inl err \<Longrightarrow>
   RANDAODomain parse quote c (s, u) =
     (Inl (errors_Wrap err ''failed to obtain configuration''), s, u\<lparr>calls := calls u + 1\<rparr>)"
  by (simp add: RANDAODomain_def GetBeaconConfig_def)

lemma RANDAODomain_missing_key:
  "randaoDomain s = None \<Longrightarrow>
   reply u (calls u) (WithTimeout c (prysmgrpc_Service.timeout s)) = Inr cfg \<Longrightarrow>
   cfg ''DomainRandao'' = None \<Longrightarrow>
   RANDAODomain parse quote c (s, u) =
     (Inl (errors_New ''config did not provide DomainRandao value''), s, u\<lparr>calls := calls u + 1\<rparr>)"
  by (simp add: RANDAODomain_def GetBeaconConfig_def)

lemma RANDAODomain_parse_error:
  "randaoDomain s = None \<Longrightarrow>
   reply u (calls u) (WithTimeout c (prysmgrpc_Service.timeout s)) = Inr cfg \<Longrightarrow>
   cfg ''DomainRandao'' = Some val \<Longrightarrow> parse val = Inl err \<Longrightarrow>
   RANDAODomain parse quote c (s, u) =
     (Inl (errors_Wrap err (''failed to convert value '' @ quote val @ '' for DomainRandao'')),
      s, u\<lparr>calls := calls u + 1\<rparr>)"
  by (simp add: RANDAODomain_def GetBeaconConfig_def)

lemma RANDAODomain_success:
  "randaoDomain s = None \<Longrightarrow>
   reply u (calls u) (WithTimeout c (prysmgrpc_Service.timeout s)) = Inr cfg \<Longrightarrow>
   cfg ''DomainRandao'' = Some val \<Longrightarrow> parse val = Inr tmp \<Longrightarrow>
   RANDAODomain parse quote c (s, u) =
     (Inr (copy zero_DomainType tmp), s\<lparr>randaoDomain := Some (copy zero_DomainType tmp)\<rparr>,
      u\<lparr>calls := calls u + 1\<rparr>)"
  by (simp add: RANDAODomain_def GetBeaconConfig_def Let_def)

lemma copy_zero_DomainType:
  "copy zero_DomainType tmp = take 4 tmp @ replicate (4 - length tmp) 0"
  by (simp add: copy_def zero_DomainType_def)

lemma length_copy: "length (copy dst src) = length dst"
  by (simp add: copy_def)

text \<open>
  Every call that finds the slot empty issues one request; it leaves the service as it
  was and returns an error, or it fills the slot with the value it returns.
\<close>

lemma RANDAODomain_miss_cases:
  assumes "randaoDomain s = None"
  shows "\<exists>r s'. RANDAODomain parse quote c (s, u) = (r, s', u\<lparr>calls := calls u + 1\<rparr>) \<and>
          ((\<exists>e. r = Inl e \<and> s' = s) \<or> (\<exists>d. r = Inr d \<and> s' = s\<lparr>randaoDomain := Some d\<rparr>))"
  using assms
  by (auto simp: RANDAODomain_def GetBeaconConfig_def Let_def split: sum.splits option.splits)

lemma RANDAODomain_ok_slot:
  assumes "RANDAODomain parse quote c (s, u) = (Inr d, s', u')"
  shows "randaoDomain s' = Some d"
  using assms
  by (auto simp: RANDAODomain_def GetBeaconConfig_def Let_def split: sum.splits option.splits prod.splits)

lemma RANDAODomain_error_unchanged:
  assumes "RANDAODomain parse quote c (s, u) = (Inl e, s', u')"
  shows "s' = s"
  using assms
  by (auto simp: RANDAODomain_def GetBeaconConfig_def Let_def split: sum.splits option.splits prod.splits)

subsection \<open>The stand-ins, evaluated\<close>

lemma fresh_service_empty: "randaoDomain fresh_service = None"
  by (simp add: fresh_service_def)

lemma randao_config_key: "randao_config ''DomainRandao'' = Some ''0x01000000''"
  by (simp add: randao_config_def)

lemma copy_randao: "copy zero_DomainType [1, 0, 0, 0] = [1, 0, 0, 0]"
  by (simp add: copy_def zero_DomainType_def)

lemma parse_randao: "parseConfigByteArray ''0x01000000'' = Inr [1, 0, 0, 0]"
  by (simp add: parseConfigByteArray_def fromHexChar_def)

lemma node_failing_once_first:
  "RANDAODomain parse quote c (fresh_service, node_failing_once) =
     (Inl (errors_Wrap (errors_New ''connection refused'') ''failed to obtain configuration''),
      fresh_service, node_failing_once\<lparr>calls := 1\<rparr>)"
  using RANDAODomain_upstream_error [OF fresh_service_empty, of node_failing_once c
      "errors_New ''connection refused''" parse quote]
  by (simp add: node_failing_once_def scripted_def)

lemma node_failing_once_second:
  "parse ''0x01000000'' = Inr [1, 0, 0, 0] \<Longrightarrow>
   RANDAODomain parse quote c (fresh_service, node_failing_once\<lparr>calls := 1\<rparr>) =
     (Inr [1, 0, 0, 0], fresh_service\<lparr>randaoDomain := Some [1, 0, 0, 0]\<rparr>,
      node_failing_once\<lparr>calls := 2\<rparr>)"
  using RANDAODomain_success [OF fresh_service_empty, of "node_failing_once\<lparr>calls := 1\<rparr>" c
      randao_config "''0x01000000''" parse "[1, 0, 0, 0]" quote]
  by (simp add: node_failing_once_def scripted_def randao_config_key copy_randao)

lemma node_ok_once_first:
  "parse ''0x01000000'' = Inr [1, 0, 0, 0] \<Longrightarrow>
   RANDAODomain parse quote c (fresh_service, node_ok_once) =
     (Inr [1, 0, 0, 0], fresh_service\<lparr>randaoDomain := Some [1, 0, 0, 0]\<rparr>,
      node_ok_once\<lparr>calls := 1\<rparr>)"
  using RANDAODomain_success [OF fresh_service_empty, of node_ok_once c
      randao_config "''0x01000000''" parse "[1, 0, 0, 0]" quote]
  by (simp add: node_ok_once_def scripted_def randao_config_key copy_randao)

subsection \<open>Calls made one after another\<close>

text \<open>
  Once the slot holds a value, every further call returns it and leaves the node alone.
  While the slot is empty, each call issues one request, up to and including the first
  call that succeeds.
\<close>

lemma RANDAODomain_calls_hit:
  "randaoDomain s = Some d \<Longrightarrow>
   RANDAODomain_calls parse quote cs (s, u) = (replicate (length cs) (Inr d), s, u)"
  by (induction cs) (simp_all add: RANDAODomain_hit)

lemma RANDAODomain_calls_miss:
  assumes "randaoDomain s = None"
    and "RANDAODomain_calls parse quote cs (s, u) = (rs, s', u')"
  shows "calls u' = calls u + min (length rs) (Suc (length (takeWhile isl rs)))
       \<and> (\<exists>d. drop (length (takeWhile isl rs)) rs
                = replicate (length rs - length (takeWhile isl rs)) (Inr d))"
  using assms
proof (induction cs arbitrary: u rs)
  case Nil
  then show ?case by simp
next
  case (Cons c cs)
  from RANDAODomain_miss_cases [OF Cons.prems(1), of parse quote c u]
  obtain r s1 where first: "RANDAODomain parse quote c (s, u) = (r, s1, u\<lparr>calls := calls u + 1\<rparr>)"
    and alt: "(\<exists>e. r = Inl e \<and> s1 = s) \<or> (\<exists>d. r = Inr d \<and> s1 = s\<lparr>randaoDomain := Some d\<rparr>)"
    by blast
  obtain rs1 s2 u2 where rest:
    "RANDAODomain_calls parse quote cs (s1, u\<lparr>calls := calls u + 1\<rparr>) = (rs1, s2, u2)"
    by (metis prod_cases3)
  from Cons.prems(2) first rest have out: "rs = r # rs1" "s' = s2" "u' = u2"
    by simp_all
  from alt show ?case
  proof
    assume "\<exists>e. r = Inl e \<and> s1 = s"
    then obtain e where e: "r = Inl e" "s1 = s" by blast
    from Cons.IH [OF Cons.prems(1), of "u\<lparr>calls := calls u + 1\<rparr>" rs1] rest e out
    have "calls u' = calls u + 1 + min (length rs1) (Suc (length (takeWhile isl rs1)))"
      and "\<exists>d. drop (length (takeWhile isl rs1)) rs1
                = replicate (length rs1 - length (takeWhile isl rs1)) (Inr d)"
      by simp_all
    with e out show ?thesis
      by simp
  next
    assume "\<exists>d. r = Inr d \<and> s1 = s\<lparr>randaoDomain := Some d\<rparr>"
    then obtain d where d: "r = Inr d" "s1 = s\<lparr>randaoDomain := Some d\<rparr>" by blast
    then have "randaoDomain s1 = Some d" by simp
    from RANDAODomain_calls_hit [OF this, of parse quote cs "u\<lparr>calls := calls u + 1\<rparr>"] rest
    have "rs1 = replicate (length cs) (Inr d)" "u2 = u\<lparr>calls := calls u + 1\<rparr>"
      by simp_all
    with d out show ?thesis
      by auto
  qed
qed

lemma RANDAODomain_calls_length:
  "RANDAODomain_calls parse quote cs st = (rs, st') \<Longrightarrow> length rs = length cs"
  by (induction cs arbitrary: st rs) (auto split: prod.splits)

subsection \<open>Calls made at the same time\<close>

text \<open>A goroutine that runs alone goes through the method as the function does.\<close>

lemma interleave_alone:
  "RANDAODomain parse quote c (s, u) = (r, s', u') \<Longrightarrow>
   interleave parse quote [0, 0, 0, 0] ([AtCheck c], s, u) = ([Returned r], s', u')"
  by (auto simp: RANDAODomain_def GetBeaconConfig_def Let_def
      split: option.splits sum.splits prod.splits)

text \<open>
  Two goroutines that both pass the nil check before either has stored a value both send
  a request.
\<close>

lemma two_goroutines_both_fetch:
  "interleave parseConfigByteArray quote_plain [0, 1, 0, 1, 0, 1, 0, 1]
     ([AtCheck Background, AtCheck Background], fresh_service, node_replying randao_config)
   = ([Returned (Inr [1, 0, 0, 0]), Returned (Inr [1, 0, 0, 0])],
      fresh_service\<lparr>randaoDomain := Some [1, 0, 0, 0]\<rparr>,
      node_replying randao_config\<lparr>calls := 2\<rparr>)"
  by (simp add: fresh_service_empty GetBeaconConfig_def node_replying_def always_def
      randao_config_key parse_randao copy_randao)

subsection \<open>The messages of the two configuration errors\<close>

lemma missing_key_message:
  "sublist ''DomainRandao'' (Error (errors_New ''config did not provide DomainRandao value''))"
  unfolding sublist_def
  by (rule exI [of _ "''config did not provide ''"], rule exI [of _ "'' value''"]) simp

lemma parse_failure_message:
  "sublist ''DomainRandao''
     (Error (errors_Wrap err (''failed to convert value '' @ q @ '' for DomainRandao'')))"
  unfolding sublist_def
  by (rule exI [of _ "''failed to convert value '' @ q @ '' for ''"],
      rule exI [of _ "'': '' @ Error err"]) simp

lemma messages_differ:
  "Error (errors_New ''config did not provide DomainRandao value'')
     \<noteq> Error (errors_Wrap err (''failed to convert value '' @ q @ '' for DomainRandao''))"
  by simp

subsection \<open>How many requests a service sends\<close>

text \<open>
  Claim C1, as stated: a service sends at most one request for the RANDAO domain over
  its lifetime, also under concurrent callers. It does not hold. A service whose first
  request fails sends a second one on the next call; and two goroutines that both find
  the slot empty both send a request, although the node answers each of them.
\<close>

theorem RANDAODomain_more_than_one_fetch:
  "\<not> calls (snd (snd (RANDAODomain_calls parseConfigByteArray quote_plain
                        [Background, Background] (fresh_service, node_failing_once)))) \<le> 1
   \<and> \<not> calls (snd (snd (interleave parseConfigByteArray quote_plain [0, 1, 0, 1, 0, 1, 0, 1]
                          ([AtCheck Background, AtCheck Background], fresh_service,
                           node_replying randao_config)))) \<le> 1"
proof -
  have seq: "RANDAODomain_calls parseConfigByteArray quote_plain [Background, Background]
          (fresh_service, node_failing_once) =
        ([Inl (errors_Wrap (errors_New ''connection refused'')
                ''failed to obtain configuration''), Inr [1, 0, 0, 0]],
         fresh_service\<lparr>randaoDomain := Some [1, 0, 0, 0]\<rparr>,
         node_failing_once\<lparr>calls := 2\<rparr>)"
    by (simp del: One_nat_def
        add: node_failing_once_first node_failing_once_second parse_randao)
  show ?thesis
    unfolding seq two_goroutines_both_fetch by simp
qed

text \<open>
  Claim C1, amended. When the calls are made one after another, the service sends one
  request in each call up to and including the first call that returns a value, and none
  after it; all calls from that one on return the same value. With a slot that already
  holds a value no request is sent at all.
\<close>

theorem RANDAODomain_calls_one_after_another:
  assumes "RANDAODomain_calls parse quote cs (s, u) = (rs, s', u')"
  shows "calls u' = calls u + (if randaoDomain s = None
                               then min (length rs) (Suc (length (takeWhile isl rs))) else 0)
       \<and> (\<exists>d. drop (length (takeWhile isl rs)) rs
                = replicate (length rs - length (takeWhile isl rs)) (Inr d))
       \<and> length rs = length cs"
proof (cases "randaoDomain s")
  case None
  with RANDAODomain_calls_miss [OF None assms] RANDAODomain_calls_length [OF assms]
  show ?thesis by simp
next
  case (Some d)
  from RANDAODomain_calls_hit [OF Some, of parse quote cs u] assms
  have "rs = replicate (length cs) (Inr d)" "u' = u"
    by simp_all
  with Some show ?thesis
    by (cases cs) auto
qed

text \<open>
  The theorem at three calls to a node that refuses the first request: two requests,
  and the second and third call return the same domain.
\<close>

theorem RANDAODomain_calls_one_after_another_witness:
  "RANDAODomain_calls parseConfigByteArray quote_plain [Background, Background, Background]
     (fresh_service, node_failing_once) =
     ([Inl (errors_Wrap (errors_New ''connection refused'') ''failed to obtain configuration''),
       Inr [1, 0, 0, 0], Inr [1, 0, 0, 0]],
      fresh_service\<lparr>randaoDomain := Some [1, 0, 0, 0]\<rparr>, node_failing_once\<lparr>calls := 2\<rparr>)
   \<and> calls (node_failing_once\<lparr>calls := 2\<rparr>) = calls node_failing_once + 2
   \<and> (\<exists>d. [Inr [1, 0, 0, 0], Inr [1, 0, 0, 0]] = replicate 2 (Inr d :: error + DomainType))"
proof -
  have third: "RANDAODomain parseConfigByteArray quote_plain Background
      (fresh_service\<lparr>randaoDomain := Some [1, 0, 0, 0]\<rparr>, node_failing_once\<lparr>calls := 2\<rparr>) =
      (Inr [1, 0, 0, 0], fresh_service\<lparr>randaoDomain := Some [1, 0, 0, 0]\<rparr>,
       node_failing_once\<lparr>calls := 2\<rparr>)"
    by (simp add: RANDAODomain_hit)
  have run: "RANDAODomain_calls parseConfigByteArray quote_plain
      [Background, Background, Background] (fresh_service, node_failing_once) =
     ([Inl (errors_Wrap (errors_New ''connection refused'') ''failed to obtain configuration''),
       Inr [1, 0, 0, 0], Inr [1, 0, 0, 0]],
      fresh_service\<lparr>randaoDomain := Some [1, 0, 0, 0]\<rparr>, node_failing_once\<lparr>calls := 2\<rparr>)"
    by (simp del: One_nat_def
        add: node_failing_once_first node_failing_once_second parse_randao third)
  have fetches: "calls (node_failing_once\<lparr>calls := 2\<rparr>) = calls node_failing_once + 2"
    using RANDAODomain_calls_one_after_another [OF run, THEN conjunct1]
    by (simp add: fresh_service_empty)
  have same: "\<exists>d. [Inr [1, 0, 0, 0], Inr [1, 0, 0, 0]]
                  = replicate 2 (Inr d :: error + DomainType)"
    using RANDAODomain_calls_one_after_another [OF run, THEN conjunct2, THEN conjunct1]
    by (simp add: numeral_2_eq_2)
  from run fetches same show ?thesis
    by (intro conjI)
qed

subsection \<open>A filled slot is served without the node\<close>

text \<open>
  Claim C2. After a call that returned a value, every further call returns the same value
  and leaves the node untouched, whatever the node would answer; the same holds for any
  service whose slot holds a value. Concretely, when the node serves a configuration
  with \<^verbatim>\<open>DomainRandao\<close> set to \<^verbatim>\<open>0x01000000\<close> and the parser decodes that text
  to the bytes 01 00 00 00, two calls both return these four bytes and the node has
  received one request.
\<close>

theorem RANDAODomain_cached_without_fetch:
  "(RANDAODomain parse quote c (s, u) = (Inr d, s', u') \<longrightarrow>
      RANDAODomain parse quote c' (s', u'') = (Inr d, s', u''))
   \<and> (randaoDomain s = Some d \<longrightarrow> RANDAODomain parse quote c (s, u) = (Inr d, s, u))
   \<and> (randaoDomain s = None \<and>
       reply u (calls u) (WithTimeout c (prysmgrpc_Service.timeout s)) = Inr cfg \<and>
       cfg ''DomainRandao'' = Some ''0x01000000'' \<and>
       parse ''0x01000000'' = Inr [1, 0, 0, 0] \<longrightarrow>
       RANDAODomain_calls parse quote [c, c'] (s, u) =
         ([Inr [1, 0, 0, 0], Inr [1, 0, 0, 0]], s\<lparr>randaoDomain := Some [1, 0, 0, 0]\<rparr>,
          u\<lparr>calls := calls u + 1\<rparr>))"
proof (intro conjI impI)
  assume "RANDAODomain parse quote c (s, u) = (Inr d, s', u')"
  then have "randaoDomain s' = Some d"
    by (rule RANDAODomain_ok_slot)
  then show "RANDAODomain parse quote c' (s', u'') = (Inr d, s', u'')"
    by (rule RANDAODomain_hit)
next
  assume "randaoDomain s = Some d"
  then show "RANDAODomain parse quote c (s, u) = (Inr d, s, u)"
    by (rule RANDAODomain_hit)
next
  assume h: "randaoDomain s = None \<and>
       reply u (calls u) (WithTimeout c (prysmgrpc_Service.timeout s)) = Inr cfg \<and>
       cfg ''DomainRandao'' = Some ''0x01000000'' \<and>
       parse ''0x01000000'' = Inr [1, 0, 0, 0]"
  then have first: "RANDAODomain parse quote c (s, u) =
      (Inr [1, 0, 0, 0], s\<lparr>randaoDomain := Some [1, 0, 0, 0]\<rparr>, u\<lparr>calls := calls u + 1\<rparr>)"
    using RANDAODomain_success [of s u c cfg "''0x01000000''" parse "[1, 0, 0, 0]" quote]
    by (simp add: copy_randao)
  show "RANDAODomain_calls parse quote [c, c'] (s, u) =
         ([Inr [1, 0, 0, 0], Inr [1, 0, 0, 0]], s\<lparr>randaoDomain := Some [1, 0, 0, 0]\<rparr>,
          u\<lparr>calls := calls u + 1\<rparr>)"
    by (simp add: first RANDAODomain_hit)
qed


text \<open>
  The theorem with the hex parser, at a node that serves one request and refuses all
  later ones, and at a node that is down.
\<close>

theorem RANDAODomain_cached_without_fetch_witness:
  "RANDAODomain parseConfigByteArray quote_plain Background (fresh_service, node_ok_once) =
     (Inr [1, 0, 0, 0], fresh_service\<lparr>randaoDomain := Some [1, 0, 0, 0]\<rparr>,
      node_ok_once\<lparr>calls := 1\<rparr>)
   \<and> RANDAODomain parseConfigByteArray quote_plain Background
        (fresh_service\<lparr>randaoDomain := Some [1, 0, 0, 0]\<rparr>, node_down) =
     (Inr [1, 0, 0, 0], fresh_service\<lparr>randaoDomain := Some [1, 0, 0, 0]\<rparr>, node_down)
   \<and> RANDAODomain_calls parseConfigByteArray quote_plain [Background, Background]
        (fresh_service, node_ok_once) =
     ([Inr [1, 0, 0, 0], Inr [1, 0, 0, 0]], fresh_service\<lparr>randaoDomain := Some [1, 0, 0, 0]\<rparr>,
      node_ok_once\<lparr>calls := 1\<rparr>)"
proof -
  note inst = RANDAODomain_cached_without_fetch [where parse = parseConfigByteArray
      and quote = quote_plain and c = Background and c' = Background and s = fresh_service
      and u = node_ok_once and d = "[1, 0, 0, 0]"
      and s' = "fresh_service\<lparr>randaoDomain := Some [1, 0, 0, 0]\<rparr>"
      and u' = "node_ok_once\<lparr>calls := 1\<rparr>" and u'' = node_down and cfg = randao_config]
  have first: "RANDAODomain parseConfigByteArray quote_plain Background
      (fresh_service, node_ok_once) =
     (Inr [1, 0, 0, 0], fresh_service\<lparr>randaoDomain := Some [1, 0, 0, 0]\<rparr>,
      node_ok_once\<lparr>calls := 1\<rparr>)"
    using parse_randao by (rule node_ok_once_first)
  have later: "RANDAODomain parseConfigByteArray quote_plain Background
        (fresh_service\<lparr>randaoDomain := Some [1, 0, 0, 0]\<rparr>, node_down) =
     (Inr [1, 0, 0, 0], fresh_service\<lparr>randaoDomain := Some [1, 0, 0, 0]\<rparr>, node_down)"
    using inst [THEN conjunct1] first by simp
  have served: "reply node_ok_once (calls node_ok_once)
      (WithTimeout Background (prysmgrpc_Service.timeout fresh_service)) = Inr randao_config"
    by (simp add: node_ok_once_def scripted_def)
  have zero: "calls node_ok_once = 0"
    by (simp add: node_ok_once_def)
  have both: "RANDAODomain_calls parseConfigByteArray quote_plain [Background, Background]
        (fresh_service, node_ok_once) =
     ([Inr [1, 0, 0, 0], Inr [1, 0, 0, 0]], fresh_service\<lparr>randaoDomain := Some [1, 0, 0, 0]\<rparr>,
      node_ok_once\<lparr>calls := 1\<rparr>)"
    using inst [THEN conjunct2, THEN conjunct2] fresh_service_empty served randao_config_key
      parse_randao zero
    by simp
  from first later both show ?thesis
    by (intro conjI)
qed

subsection \<open>Failures leave the slot empty\<close>

text \<open>
  Claim C3. A call that finds the slot empty and whose request fails returns the
  transport error wrapped with "failed to obtain configuration" and leaves the service
  as it was; a value that the parser rejects gives the parser's error, wrapped, and
  leaves the service as it was too. After any call that returns an error the slot is
  still empty and the next call issues a request again; a slot that holds a value after
  the call means that the call returned this value.
\<close>

theorem RANDAODomain_failure_leaves_slot_empty:
  assumes "randaoDomain s = None"
  shows "(reply u (calls u) (WithTimeout c (prysmgrpc_Service.timeout s)) = Inl err \<longrightarrow>
            RANDAODomain parse quote c (s, u) =
              (Inl (errors_Wrap err ''failed to obtain configuration''), s,
               u\<lparr>calls := calls u + 1\<rparr>))
       \<and> (reply u (calls u) (WithTimeout c (prysmgrpc_Service.timeout s)) = Inr cfg \<and>
            cfg ''DomainRandao'' = Some val \<and> parse val = Inl err \<longrightarrow>
            RANDAODomain parse quote c (s, u) =
              (Inl (errors_Wrap err (''failed to convert value '' @ quote val
                                      @ '' for DomainRandao'')), s,
               u\<lparr>calls := calls u + 1\<rparr>))
       \<and> (RANDAODomain parse quote c (s, u) = (r, s', u') \<longrightarrow>
            (isl r \<longrightarrow> s' = s \<and> randaoDomain s' = None
                     \<and> calls (snd (snd (RANDAODomain parse quote c' (s', u')))) = calls u' + 1)
          \<and> (randaoDomain s' = Some d \<longrightarrow> r = Inr d))"
proof (intro conjI impI)
  assume "reply u (calls u) (WithTimeout c (prysmgrpc_Service.timeout s)) = Inl err"
  with assms show "RANDAODomain parse quote c (s, u) =
      (Inl (errors_Wrap err ''failed to obtain configuration''), s, u\<lparr>calls := calls u + 1\<rparr>)"
    by (rule RANDAODomain_upstream_error)
next
  assume "reply u (calls u) (WithTimeout c (prysmgrpc_Service.timeout s)) = Inr cfg \<and>
            cfg ''DomainRandao'' = Some val \<and> parse val = Inl err"
  with assms show "RANDAODomain parse quote c (s, u) =
      (Inl (errors_Wrap err (''failed to convert value '' @ quote val @ '' for DomainRandao'')),
       s, u\<lparr>calls := calls u + 1\<rparr>)"
    by (simp add: RANDAODomain_parse_error)
next
  assume run: "RANDAODomain parse quote c (s, u) = (r, s', u')" and "isl r"
  then obtain e where "r = Inl e"
    by (cases r) auto
  with run show "s' = s"
    by (simp add: RANDAODomain_error_unchanged)
  with assms show "randaoDomain s' = None"
    by simp
  then obtain r2 s2 where
    "RANDAODomain parse quote c' (s', u') = (r2, s2, u'\<lparr>calls := calls u' + 1\<rparr>)"
    using RANDAODomain_miss_cases [of s' parse quote c' u'] by blast
  then show "calls (snd (snd (RANDAODomain parse quote c' (s', u')))) = calls u' + 1"
    by simp
next
  assume run: "RANDAODomain parse quote c (s, u) = (r, s', u')" and full: "randaoDomain s' = Some d"
  show "r = Inr d"
  proof (cases r)
    case (Inl e)
    with run have "s' = s"
      by (simp add: RANDAODomain_error_unchanged)
    with assms full show ?thesis
      by simp
  next
    case (Inr d')
    with run have "randaoDomain s' = Some d'"
      by (simp add: RANDAODomain_ok_slot)
    with Inr full show ?thesis
      by simp
  qed
qed

text \<open>
  The theorem at a node that refuses the first request, and at a node whose value has an
  odd number of hex digits.
\<close>

theorem RANDAODomain_failure_leaves_slot_empty_witness:
  "randaoDomain fresh_service = None
   \<and> RANDAODomain parseConfigByteArray quote_plain Background (fresh_service, node_failing_once) =
       (Inl (errors_Wrap (errors_New ''connection refused'') ''failed to obtain configuration''),
        fresh_service, node_failing_once\<lparr>calls := 1\<rparr>)
   \<and> calls (snd (snd (RANDAODomain parseConfigByteArray quote_plain Background
                        (fresh_service, node_failing_once\<lparr>calls := 1\<rparr>)))) = 2
   \<and> RANDAODomain parseConfigByteArray quote_plain Background
        (fresh_service, node_replying [''DomainRandao'' \<mapsto> ''0x010'']) =
       (Inl (errors_Wrap (errors_New ''odd length hex string'')
               (''failed to convert value '' @ quote_plain ''0x010'' @ '' for DomainRandao'')),
        fresh_service, node_replying [''DomainRandao'' \<mapsto> ''0x010'']\<lparr>calls := 1\<rparr>)"
proof -
  have empty: "randaoDomain fresh_service = None"
    by (simp add: fresh_service_def)
  have refused: "reply node_failing_once (calls node_failing_once)
      (WithTimeout Background (prysmgrpc_Service.timeout fresh_service))
      = Inl (errors_New ''connection refused'')"
    by (simp add: node_failing_once_def scripted_def)
  have odd: "parseConfigByteArray ''0x010'' = Inl (errors_New ''odd length hex string'')"
    by (simp add: parseConfigByteArray_def fromHexChar_def)
  have bad: "reply (node_replying [''DomainRandao'' \<mapsto> ''0x010''])
      (calls (node_replying [''DomainRandao'' \<mapsto> ''0x010'']))
      (WithTimeout Background (prysmgrpc_Service.timeout fresh_service))
      = Inr [''DomainRandao'' \<mapsto> ''0x010'']"
    by (simp add: node_replying_def always_def)
  have zero: "calls node_failing_once = 0" "calls (node_replying cfg) = 0" for cfg
    by (simp_all add: node_failing_once_def node_replying_def)
  note first = RANDAODomain_failure_leaves_slot_empty [OF empty,
      where u = node_failing_once and c = Background and c' = Background
        and err = "errors_New ''connection refused''" and parse = parseConfigByteArray
        and quote = quote_plain
        and r = "Inl (errors_Wrap (errors_New ''connection refused'')
                        ''failed to obtain configuration'')"
        and s' = fresh_service and u' = "node_failing_once\<lparr>calls := 1\<rparr>"]
  note second = RANDAODomain_failure_leaves_slot_empty [OF empty,
      where u = "node_replying [''DomainRandao'' \<mapsto> ''0x010'']" and c = Background
        and cfg = "[''DomainRandao'' \<mapsto> ''0x010'']" and val = "''0x010''"
        and err = "errors_New ''odd length hex string''" and parse = parseConfigByteArray
        and quote = quote_plain]
  have a: "RANDAODomain parseConfigByteArray quote_plain Background
            (fresh_service, node_failing_once) =
       (Inl (errors_Wrap (errors_New ''connection refused'') ''failed to obtain configuration''),
        fresh_service, node_failing_once\<lparr>calls := 1\<rparr>)"
    using first refused zero by simp
  have b: "calls (snd (snd (RANDAODomain parseConfigByteArray quote_plain Background
                        (fresh_service, node_failing_once\<lparr>calls := 1\<rparr>)))) = 2"
    using first a by simp
  have c: "RANDAODomain parseConfigByteArray quote_plain Background
        (fresh_service, node_replying [''DomainRandao'' \<mapsto> ''0x010'']) =
       (Inl (errors_Wrap (errors_New ''odd length hex string'')
               (''failed to convert value '' @ quote_plain ''0x010'' @ '' for DomainRandao'')),
        fresh_service, node_replying [''DomainRandao'' \<mapsto> ''0x010'']\<lparr>calls := 1\<rparr>)"
    using second bad odd zero by simp
  show ?thesis
    using empty a b c by simp
qed

subsection \<open>Four bytes, whatever the parser returns\<close>

text \<open>
  Claim C10. When the parser decodes the value, the call copies at most four of its
  bytes into a zeroed four-byte domain: the result is the first four bytes of the
  decoded value, followed by zero bytes up to the length four. It is a value, never an
  error, whatever the length of the decoded value.
\<close>

theorem RANDAODomain_pads_or_truncates:
  assumes "randaoDomain s = None"
    and "reply u (calls u) (WithTimeout c (prysmgrpc_Service.timeout s)) = Inr cfg"
    and "cfg ''DomainRandao'' = Some val"
    and "parse val = Inr tmp"
  shows "fst (RANDAODomain parse quote c (s, u)) = Inr (take 4 tmp @ replicate (4 - length tmp) 0)
       \<and> length (take 4 tmp @ replicate (4 - length tmp) (0 :: byte)) = 4"
proof -
  have "fst (RANDAODomain parse quote c (s, u)) = Inr (copy zero_DomainType tmp)"
    using assms by (simp add: RANDAODomain_success)
  then show ?thesis
    by (simp add: copy_zero_DomainType)
qed

text \<open>The theorem at a value of two bytes and at a value of six bytes.\<close>

theorem RANDAODomain_pads_or_truncates_witness:
  "fst (RANDAODomain parseConfigByteArray quote_plain Background
          (fresh_service, node_replying [''DomainRandao'' \<mapsto> ''0x0102'']))
     = Inr [1, 2, 0, 0]
   \<and> fst (RANDAODomain parseConfigByteArray quote_plain Background
          (fresh_service, node_replying [''DomainRandao'' \<mapsto> ''0x010203040506'']))
     = Inr [1, 2, 3, 4]"
proof -
  have short: "parseConfigByteArray ''0x0102'' = Inr [1, 2]"
    by (simp add: parseConfigByteArray_def fromHexChar_def)
  have long: "parseConfigByteArray ''0x010203040506'' = Inr [1, 2, 3, 4, 5, 6]"
    by (simp add: parseConfigByteArray_def fromHexChar_def)
  have empty: "randaoDomain fresh_service = None"
    by (simp add: fresh_service_def)
  have r: "reply (node_replying cfg) (calls (node_replying cfg))
              (WithTimeout Background (prysmgrpc_Service.timeout fresh_service)) = Inr cfg" for cfg
    by (simp add: always_def node_replying_def)
  have a: "fst (RANDAODomain parseConfigByteArray quote_plain Background
          (fresh_service, node_replying [''DomainRandao'' \<mapsto> ''0x0102'']))
     = Inr [1, 2, 0, 0]"
    using RANDAODomain_pads_or_truncates [where s = fresh_service
        and u = "node_replying [''DomainRandao'' \<mapsto> ''0x0102'']" and c = Background
        and cfg = "[''DomainRandao'' \<mapsto> ''0x0102'']" and val = "''0x0102''"
        and parse = parseConfigByteArray and tmp = "[1, 2]" and quote = quote_plain]
      empty r short
    by (simp add: numeral_2_eq_2)
  have b: "fst (RANDAODomain parseConfigByteArray quote_plain Background
          (fresh_service, node_replying [''DomainRandao'' \<mapsto> ''0x010203040506'']))
     = Inr [1, 2, 3, 4]"
    using RANDAODomain_pads_or_truncates [where s = fresh_service
        and u = "node_replying [''DomainRandao'' \<mapsto> ''0x010203040506'']" and c = Background
        and cfg = "[''DomainRandao'' \<mapsto> ''0x010203040506'']" and val = "''0x010203040506''"
        and parse = parseConfigByteArray and tmp = "[1, 2, 3, 4, 5, 6]" and quote = quote_plain]
      empty r long
    by simp
  show ?thesis using a b by simp
qed


subsection \<open>A missing key and an undecodable value\<close>

lemma parse_nothing: "parseConfigByteArray ''0x'' = Inr []"
  by (simp add: parseConfigByteArray_def)

lemma copy_nothing: "copy zero_DomainType [] = [0, 0, 0, 0]"
  by (simp add: copy_def zero_DomainType_def eval_nat_numeral)

text \<open>
  Claim C4, as stated: a value that is present but cannot be decoded into the four-byte
  shape gives an error, and nothing is silently defaulted. It does not hold for a value
  of the wrong length. The method checks no length: a value that the parser decodes to
  no bytes at all is returned, and cached, as the domain 00 00 00 00, without an error.
\<close>

theorem RANDAODomain_wrong_length_is_no_error:
  "parseConfigByteArray ''0x'' = Inr []
   \<and> RANDAODomain parseConfigByteArray quote_plain Background
        (fresh_service, node_replying [''DomainRandao'' \<mapsto> ''0x'']) =
       (Inr [0, 0, 0, 0], fresh_service\<lparr>randaoDomain := Some [0, 0, 0, 0]\<rparr>,
        node_replying [''DomainRandao'' \<mapsto> ''0x'']\<lparr>calls := 1\<rparr>)"
proof -
  have served: "reply (node_replying [''DomainRandao'' \<mapsto> ''0x''])
      (calls (node_replying [''DomainRandao'' \<mapsto> ''0x'']))
      (WithTimeout Background (prysmgrpc_Service.timeout fresh_service))
      = Inr [''DomainRandao'' \<mapsto> ''0x'']"
    by (simp add: node_replying_def always_def)
  have key: "[''DomainRandao'' \<mapsto> ''0x''] ''DomainRandao'' = Some ''0x''"
    by simp
  have zero: "calls (node_replying [''DomainRandao'' \<mapsto> ''0x'']) = 0"
    by (simp add: node_replying_def)
  have run: "RANDAODomain parseConfigByteArray quote_plain Background
        (fresh_service, node_replying [''DomainRandao'' \<mapsto> ''0x'']) =
       (Inr [0, 0, 0, 0], fresh_service\<lparr>randaoDomain := Some [0, 0, 0, 0]\<rparr>,
        node_replying [''DomainRandao'' \<mapsto> ''0x'']\<lparr>calls := 1\<rparr>)"
    using RANDAODomain_success [where s = fresh_service
        and u = "node_replying [''DomainRandao'' \<mapsto> ''0x'']" and c = Background
        and cfg = "[''DomainRandao'' \<mapsto> ''0x'']" and val = "''0x''"
        and parse = parseConfigByteArray and tmp = "[]" and quote = quote_plain]
      fresh_service_empty served key parse_nothing zero
    by (simp add: copy_nothing)
  from parse_nothing run show ?thesis
    by (intro conjI)
qed

text \<open>
  Claim C4, amended. When the node's configuration has no \<^verbatim>\<open>DomainRandao\<close> entry
  the call returns the error "config did not provide DomainRandao value"; when the entry
  is there and the parser rejects it, the call returns the parser's error wrapped with
  the message "failed to convert value ... for DomainRandao". The two errors differ, as
  values and in their messages, both messages contain the key name, and in both cases
  the service is left as it was: no value is stored or returned. A value that the parser
  accepts is never an error, whatever its length: its first four bytes, filled up with
  zero bytes, are stored and returned.
\<close>

theorem RANDAODomain_missing_key_and_parse_failure:
  assumes "randaoDomain s = None"
    and "reply u (calls u) (WithTimeout c (prysmgrpc_Service.timeout s)) = Inr cfg"
  shows "(cfg ''DomainRandao'' = None \<longrightarrow>
            RANDAODomain parse quote c (s, u) =
              (Inl (errors_New ''config did not provide DomainRandao value''), s,
               u\<lparr>calls := calls u + 1\<rparr>))
       \<and> (cfg ''DomainRandao'' = Some val \<and> parse val = Inl err \<longrightarrow>
            RANDAODomain parse quote c (s, u) =
              (Inl (errors_Wrap err (''failed to convert value '' @ quote val
                                      @ '' for DomainRandao'')), s,
               u\<lparr>calls := calls u + 1\<rparr>))
       \<and> errors_New ''config did not provide DomainRandao value''
           \<noteq> errors_Wrap err (''failed to convert value '' @ quote val @ '' for DomainRandao'')
       \<and> Error (errors_New ''config did not provide DomainRandao value'')
           \<noteq> Error (errors_Wrap err (''failed to convert value '' @ quote val
                                       @ '' for DomainRandao''))
       \<and> sublist ''DomainRandao'' (Error (errors_New ''config did not provide DomainRandao value''))
       \<and> sublist ''DomainRandao''
            (Error (errors_Wrap err (''failed to convert value '' @ quote val
                                      @ '' for DomainRandao'')))
       \<and> (cfg ''DomainRandao'' = Some val \<and> parse val = Inr tmp \<longrightarrow>
            RANDAODomain parse quote c (s, u) =
              (Inr (take 4 tmp @ replicate (4 - length tmp) 0),
               s\<lparr>randaoDomain := Some (take 4 tmp @ replicate (4 - length tmp) 0)\<rparr>,
               u\<lparr>calls := calls u + 1\<rparr>))"
proof (intro conjI impI)
  assume "cfg ''DomainRandao'' = None"
  with assms show "RANDAODomain parse quote c (s, u) =
      (Inl (errors_New ''config did not provide DomainRandao value''), s,
       u\<lparr>calls := calls u + 1\<rparr>)"
    by (rule RANDAODomain_missing_key)
next
  assume "cfg ''DomainRandao'' = Some val \<and> parse val = Inl err"
  with assms show "RANDAODomain parse quote c (s, u) =
      (Inl (errors_Wrap err (''failed to convert value '' @ quote val @ '' for DomainRandao'')),
       s, u\<lparr>calls := calls u + 1\<rparr>)"
    by (simp add: RANDAODomain_parse_error)
next
  show "errors_New ''config did not provide DomainRandao value''
          \<noteq> errors_Wrap err (''failed to convert value '' @ quote val @ '' for DomainRandao'')"
    by simp
next
  show "Error (errors_New ''config did not provide DomainRandao value'')
          \<noteq> Error (errors_Wrap err (''failed to convert value '' @ quote val
                                      @ '' for DomainRandao''))"
    by (rule messages_differ)
next
  show "sublist ''DomainRandao'' (Error (errors_New ''config did not provide DomainRandao value''))"
    by (rule missing_key_message)
next
  show "sublist ''DomainRandao''
          (Error (errors_Wrap err (''failed to convert value '' @ quote val
                                    @ '' for DomainRandao'')))"
    by (rule parse_failure_message)
next
  assume "cfg ''DomainRandao'' = Some val \<and> parse val = Inr tmp"
  with assms have "RANDAODomain parse quote c (s, u) =
      (Inr (copy zero_DomainType tmp), s\<lparr>randaoDomain := Some (copy zero_DomainType tmp)\<rparr>,
       u\<lparr>calls := calls u + 1\<rparr>)"
    by (simp add: RANDAODomain_success)
  then show "RANDAODomain parse quote c (s, u) =
      (Inr (take 4 tmp @ replicate (4 - length tmp) 0),
       s\<lparr>randaoDomain := Some (take 4 tmp @ replicate (4 - length tmp) 0)\<rparr>,
       u\<lparr>calls := calls u + 1\<rparr>)"
    by (simp only: copy_zero_DomainType)
qed

text \<open>
  The theorem at a node whose configuration is empty, at a node whose value has an odd
  number of hex digits, and at a node whose value is a single byte.
\<close>

theorem RANDAODomain_missing_key_and_parse_failure_witness:
  "RANDAODomain parseConfigByteArray quote_plain Background
     (fresh_service, node_replying Map.empty) =
     (Inl (errors_New ''config did not provide DomainRandao value''), fresh_service,
      node_replying Map.empty\<lparr>calls := 1\<rparr>)
   \<and> RANDAODomain parseConfigByteArray quote_plain Background
        (fresh_service, node_replying [''DomainRandao'' \<mapsto> ''0x010'']) =
       (Inl (errors_Wrap (errors_New ''odd length hex string'')
               (''failed to convert value '' @ quote_plain ''0x010'' @ '' for DomainRandao'')),
        fresh_service, node_replying [''DomainRandao'' \<mapsto> ''0x010'']\<lparr>calls := 1\<rparr>)
   \<and> RANDAODomain parseConfigByteArray quote_plain Background
        (fresh_service, node_replying [''DomainRandao'' \<mapsto> ''0x07'']) =
       (Inr [7, 0, 0, 0], fresh_service\<lparr>randaoDomain := Some [7, 0, 0, 0]\<rparr>,
        node_replying [''DomainRandao'' \<mapsto> ''0x07'']\<lparr>calls := 1\<rparr>)"
proof -
  have served: "reply (node_replying cfg) (calls (node_replying cfg))
      (WithTimeout Background (prysmgrpc_Service.timeout fresh_service)) = Inr cfg" for cfg
    by (simp add: node_replying_def always_def)
  have zero: "calls (node_replying cfg) = 0" for cfg
    by (simp add: node_replying_def)
  have odd: "parseConfigByteArray ''0x010'' = Inl (errors_New ''odd length hex string'')"
    by (simp add: parseConfigByteArray_def fromHexChar_def)
  have absent: "RANDAODomain parseConfigByteArray quote_plain Background
     (fresh_service, node_replying Map.empty) =
     (Inl (errors_New ''config did not provide DomainRandao value''), fresh_service,
      node_replying Map.empty\<lparr>calls := 1\<rparr>)"
    using RANDAODomain_missing_key_and_parse_failure [where s = fresh_service
        and u = "node_replying Map.empty" and c = Background and cfg = Map.empty
        and parse = parseConfigByteArray and quote = quote_plain, THEN conjunct1]
      fresh_service_empty served zero
    by simp
  have undecodable: "RANDAODomain parseConfigByteArray quote_plain Background
        (fresh_service, node_replying [''DomainRandao'' \<mapsto> ''0x010'']) =
       (Inl (errors_Wrap (errors_New ''odd length hex string'')
               (''failed to convert value '' @ quote_plain ''0x010'' @ '' for DomainRandao'')),
        fresh_service, node_replying [''DomainRandao'' \<mapsto> ''0x010'']\<lparr>calls := 1\<rparr>)"
    using RANDAODomain_missing_key_and_parse_failure [where s = fresh_service
        and u = "node_replying [''DomainRandao'' \<mapsto> ''0x010'']" and c = Background
        and cfg = "[''DomainRandao'' \<mapsto> ''0x010'']" and parse = parseConfigByteArray
        and quote = quote_plain and val = "''0x010''"
        and err = "errors_New ''odd length hex string''", THEN conjunct2, THEN conjunct1]
      fresh_service_empty served zero odd
    by simp
  have one: "parseConfigByteArray ''0x07'' = Inr [7]"
    by (simp add: parseConfigByteArray_def fromHexChar_def)
  have short: "RANDAODomain parseConfigByteArray quote_plain Background
        (fresh_service, node_replying [''DomainRandao'' \<mapsto> ''0x07'']) =
       (Inr [7, 0, 0, 0], fresh_service\<lparr>randaoDomain := Some [7, 0, 0, 0]\<rparr>,
        node_replying [''DomainRandao'' \<mapsto> ''0x07'']\<lparr>calls := 1\<rparr>)"
    using RANDAODomain_missing_key_and_parse_failure [where s = fresh_service
        and u = "node_replying [''DomainRandao'' \<mapsto> ''0x07'']" and c = Background
        and cfg = "[''DomainRandao'' \<mapsto> ''0x07'']" and parse = parseConfigByteArray
        and quote = quote_plain and val = "''0x07''" and tmp = "[7]",
        THEN conjunct2, THEN conjunct2, THEN conjunct2, THEN conjunct2, THEN conjunct2,
        THEN conjunct2]
      fresh_service_empty served zero one
    by (simp add: eval_nat_numeral)
  from absent undecodable short show ?thesis
    by (intro conjI)
qed

subsection \<open>The context of the request\<close>

text \<open>
  A call that finds the slot empty asks the node for one reply, under the context made
  from the caller's context and the service's timeout in line 29.
\<close>

lemma RANDAODomain_reads_one_reply:
  assumes "randaoDomain s = None"
    and "reply u (calls u) (WithTimeout c (prysmgrpc_Service.timeout s))
         = reply v (calls v) (WithTimeout c (prysmgrpc_Service.timeout s))"
  shows "fst (RANDAODomain parse quote c (s, u)) = fst (RANDAODomain parse quote c (s, v))"
  using assms
  by (simp add: RANDAODomain_def GetBeaconConfig_def Let_def split: sum.splits option.splits)

lemma node_honouring_done:
  assumes "randaoDomain s = None"
    and "Done fired (WithTimeout c (prysmgrpc_Service.timeout s))"
  shows "RANDAODomain parse quote c (s, node_honouring fired cfg) =
     (Inl (errors_Wrap (errors_New ''context canceled'') ''failed to obtain configuration''),
      s, node_honouring fired cfg\<lparr>calls := 1\<rparr>)"
proof -
  have "reply (node_honouring fired cfg) (calls (node_honouring fired cfg))
          (WithTimeout c (prysmgrpc_Service.timeout s)) = Inl (errors_New ''context canceled'')"
    using assms(2) by (simp add: node_honouring_def honouring_def)
  from RANDAODomain_upstream_error [OF assms(1) this] show ?thesis
    by (simp add: node_honouring_def)
qed

lemma node_honouring_live:
  assumes "randaoDomain s = None"
    and "\<not> Done fired (WithTimeout c (prysmgrpc_Service.timeout s))"
  shows "fst (RANDAODomain parse quote c (s, node_honouring fired cfg))
         = fst (RANDAODomain parse quote c (s, node_replying cfg))"
proof (rule RANDAODomain_reads_one_reply [OF assms(1)])
  show "reply (node_honouring fired cfg) (calls (node_honouring fired cfg))
          (WithTimeout c (prysmgrpc_Service.timeout s))
        = reply (node_replying cfg) (calls (node_replying cfg))
          (WithTimeout c (prysmgrpc_Service.timeout s))"
    using assms(2) by (simp add: node_honouring_def honouring_def node_replying_def always_def)
qed

lemma node_replying_randao:
  "RANDAODomain parseConfigByteArray quote c (fresh_service, node_replying randao_config) =
     (Inr [1, 0, 0, 0], fresh_service\<lparr>randaoDomain := Some [1, 0, 0, 0]\<rparr>,
      node_replying randao_config\<lparr>calls := 1\<rparr>)"
  using RANDAODomain_success [OF fresh_service_empty, of "node_replying randao_config" c
      randao_config "''0x01000000''" parseConfigByteArray "[1, 0, 0, 0]" quote]
  by (simp add: node_replying_def always_def randao_config_key parse_randao copy_randao)

text \<open>
  Claim C6, as stated: the request is bounded by the service's timeout, and this timeout
  is applied independently of any cancellation signal of the caller. The second half
  does not hold. The context of the request is derived from the caller's context, so
  it is done as soon as the caller's context is: with a transport that honours its
  context, a caller who has cancelled gets the transport's error although the timeout
  of the request itself has not run out.
\<close>

theorem RANDAODomain_timeout_follows_caller:
  "\<not> fired_only caller_context
        (WithTimeout caller_context (prysmgrpc_Service.timeout fresh_service))
   \<and> RANDAODomain parseConfigByteArray quote_plain caller_context
        (fresh_service, node_honouring (fired_only caller_context) randao_config) =
       (Inl (errors_Wrap (errors_New ''context canceled'') ''failed to obtain configuration''),
        fresh_service, node_honouring (fired_only caller_context) randao_config\<lparr>calls := 1\<rparr>)"
proof -
  have own: "\<not> fired_only caller_context
        (WithTimeout caller_context (prysmgrpc_Service.timeout fresh_service))"
    by (simp add: fired_only_def caller_context_def)
  have "Done (fired_only caller_context)
          (WithTimeout caller_context (prysmgrpc_Service.timeout fresh_service))"
    by (simp add: fired_only_def caller_context_def)
  from node_honouring_done [OF fresh_service_empty this]
  have run: "RANDAODomain parseConfigByteArray quote_plain caller_context
        (fresh_service, node_honouring (fired_only caller_context) randao_config) =
       (Inl (errors_Wrap (errors_New ''context canceled'') ''failed to obtain configuration''),
        fresh_service, node_honouring (fired_only caller_context) randao_config\<lparr>calls := 1\<rparr>)" .
  from own run show ?thesis
    by (intro conjI)
qed

text \<open>
  Claim C6, amended. A call that finds the slot empty issues exactly one request, under
  the context \<^verbatim>\<open>WithTimeout(ctx, s.timeout)\<close>: what the call returns depends on the
  node only through the reply to a request under this context. That context is done
  when the service's timeout has run out or when the caller's context is done,
  whichever comes first: a transport that honours its context fails the request in both
  cases, and answers it otherwise.
\<close>

theorem RANDAODomain_request_under_derived_context:
  assumes "randaoDomain s = None"
  shows "(reply u (calls u) (WithTimeout c (prysmgrpc_Service.timeout s))
            = reply v (calls v) (WithTimeout c (prysmgrpc_Service.timeout s)) \<longrightarrow>
          fst (RANDAODomain parse quote c (s, u)) = fst (RANDAODomain parse quote c (s, v)))
       \<and> calls (snd (snd (RANDAODomain parse quote c (s, u)))) = calls u + 1
       \<and> (fired (WithTimeout c (prysmgrpc_Service.timeout s)) \<or> Done fired c \<longrightarrow>
            RANDAODomain parse quote c (s, node_honouring fired cfg) =
              (Inl (errors_Wrap (errors_New ''context canceled'')
                      ''failed to obtain configuration''),
               s, node_honouring fired cfg\<lparr>calls := 1\<rparr>))
       \<and> (\<not> fired (WithTimeout c (prysmgrpc_Service.timeout s)) \<and> \<not> Done fired c \<longrightarrow>
            fst (RANDAODomain parse quote c (s, node_honouring fired cfg))
              = fst (RANDAODomain parse quote c (s, node_replying cfg)))"
proof (intro conjI impI)
  assume "reply u (calls u) (WithTimeout c (prysmgrpc_Service.timeout s))
            = reply v (calls v) (WithTimeout c (prysmgrpc_Service.timeout s))"
  with assms show "fst (RANDAODomain parse quote c (s, u)) = fst (RANDAODomain parse quote c (s, v))"
    by (rule RANDAODomain_reads_one_reply)
next
  from RANDAODomain_miss_cases [OF assms, of parse quote c u]
  obtain r s' where "RANDAODomain parse quote c (s, u) = (r, s', u\<lparr>calls := calls u + 1\<rparr>)"
    by blast
  then show "calls (snd (snd (RANDAODomain parse quote c (s, u)))) = calls u + 1"
    by simp
next
  assume "fired (WithTimeout c (prysmgrpc_Service.timeout s)) \<or> Done fired c"
  then have "Done fired (WithTimeout c (prysmgrpc_Service.timeout s))"
    by simp
  with assms show "RANDAODomain parse quote c (s, node_honouring fired cfg) =
              (Inl (errors_Wrap (errors_New ''context canceled'')
                      ''failed to obtain configuration''),
               s, node_honouring fired cfg\<lparr>calls := 1\<rparr>)"
    by (rule node_honouring_done)
next
  assume "\<not> fired (WithTimeout c (prysmgrpc_Service.timeout s)) \<and> \<not> Done fired c"
  then have "\<not> Done fired (WithTimeout c (prysmgrpc_Service.timeout s))"
    by simp
  with assms show "fst (RANDAODomain parse quote c (s, node_honouring fired cfg))
              = fst (RANDAODomain parse quote c (s, node_replying cfg))"
    by (rule node_honouring_live)
qed


text \<open>
  The theorem at a request whose own timeout has run out, at a request whose caller has
  cancelled, at a request where neither has happened, and at a node that counts its
  requests.
\<close>

theorem RANDAODomain_request_under_derived_context_witness:
  "randaoDomain fresh_service = None
   \<and> RANDAODomain parseConfigByteArray quote_plain caller_context
        (fresh_service,
         node_honouring
           (fired_only (WithTimeout caller_context (prysmgrpc_Service.timeout fresh_service)))
           randao_config) =
       (Inl (errors_Wrap (errors_New ''context canceled'') ''failed to obtain configuration''),
        fresh_service,
        node_honouring
          (fired_only (WithTimeout caller_context (prysmgrpc_Service.timeout fresh_service)))
          randao_config\<lparr>calls := 1\<rparr>)
   \<and> RANDAODomain parseConfigByteArray quote_plain (WithTimeout caller_context 5)
        (fresh_service, node_honouring (fired_only caller_context) randao_config) =
       (Inl (errors_Wrap (errors_New ''context canceled'') ''failed to obtain configuration''),
        fresh_service, node_honouring (fired_only caller_context) randao_config\<lparr>calls := 1\<rparr>)
   \<and> fst (RANDAODomain parseConfigByteArray quote_plain caller_context
            (fresh_service, node_honouring (fired_only Background) randao_config))
       = Inr [1, 0, 0, 0]
   \<and> calls (snd (snd (RANDAODomain parseConfigByteArray quote_plain caller_context
                        (fresh_service, node_ok_once)))) = 1"
proof -
  note inst = RANDAODomain_request_under_derived_context [OF fresh_service_empty,
      where parse = parseConfigByteArray and quote = quote_plain and cfg = randao_config]
  have own: "RANDAODomain parseConfigByteArray quote_plain caller_context
        (fresh_service,
         node_honouring
           (fired_only (WithTimeout caller_context (prysmgrpc_Service.timeout fresh_service)))
           randao_config) =
       (Inl (errors_Wrap (errors_New ''context canceled'') ''failed to obtain configuration''),
        fresh_service,
        node_honouring
          (fired_only (WithTimeout caller_context (prysmgrpc_Service.timeout fresh_service)))
          randao_config\<lparr>calls := 1\<rparr>)"
    using inst [where c = caller_context
        and fired = "fired_only (WithTimeout caller_context
                                   (prysmgrpc_Service.timeout fresh_service))",
        THEN conjunct2, THEN conjunct2, THEN conjunct1]
    by (simp add: fired_only_def)
  have caller: "RANDAODomain parseConfigByteArray quote_plain (WithTimeout caller_context 5)
        (fresh_service, node_honouring (fired_only caller_context) randao_config) =
       (Inl (errors_Wrap (errors_New ''context canceled'') ''failed to obtain configuration''),
        fresh_service, node_honouring (fired_only caller_context) randao_config\<lparr>calls := 1\<rparr>)"
    using inst [where c = "WithTimeout caller_context 5" and fired = "fired_only caller_context",
        THEN conjunct2, THEN conjunct2, THEN conjunct1]
    by (simp add: fired_only_def caller_context_def)
  have "fst (RANDAODomain parseConfigByteArray quote_plain caller_context
            (fresh_service, node_honouring (fired_only Background) randao_config))
       = fst (RANDAODomain parseConfigByteArray quote_plain caller_context
            (fresh_service, node_replying randao_config))"
    using inst [where c = caller_context and fired = "fired_only Background",
        THEN conjunct2, THEN conjunct2, THEN conjunct2]
    by (simp add: fired_only_def caller_context_def)
  then have live: "fst (RANDAODomain parseConfigByteArray quote_plain caller_context
            (fresh_service, node_honouring (fired_only Background) randao_config))
       = Inr [1, 0, 0, 0]"
    by (simp only: node_replying_randao fst_conv)
  have once: "calls (snd (snd (RANDAODomain parseConfigByteArray quote_plain caller_context
                        (fresh_service, node_ok_once)))) = 1"
    using inst [where c = caller_context and u = node_ok_once, THEN conjunct2, THEN conjunct1]
    by (simp add: node_ok_once_def)
  from fresh_service_empty own caller live once show ?thesis
    by (intro conjI)
qed

section \<open>Properties of the tekuhttp service\<close>

subsection \<open>The four ways through the constructor\<close>

lemma New_bad_parameters:
  "P params = Inl err \<Longrightarrow>
   New P U G c params w = (Inl (errors_Wrap err ''problem with parameters''), w)"
  by (simp add: New_def)

lemma New_bad_URL:
  "P params = Inr ps \<Longrightarrow>
   U (if \<not> prefix ''http'' (parameters.address ps) then ''http://'' @ parameters.address ps
      else parameters.address ps) = Inl err \<Longrightarrow>
   New P U G c params w = (Inl (errors_Wrap err ''invalid URL''), w)"
  by (simp add: New_def)

lemma New_probe_failed:
  "P params = Inr ps \<Longrightarrow>
   U (if \<not> prefix ''http'' (parameters.address ps) then ''http://'' @ parameters.address ps
      else parameters.address ps) = Inr b \<Longrightarrow>
   G c (new_Service c b ps, w) = (Inl err, s1, w1) \<Longrightarrow>
   New P U G c params w =
     (Inl (errors_Wrap (errors_Wrap err ''failed to fetch genesis time'')
             ''failed to confirm node connection''), w1)"
  by (simp add: New_def fetchStaticValues_def)

lemma New_probe_ok:
  "P params = Inr ps \<Longrightarrow>
   U (if \<not> prefix ''http'' (parameters.address ps) then ''http://'' @ parameters.address ps
      else parameters.address ps) = Inr b \<Longrightarrow>
   G c (new_Service c b ps, w) = (Inr t, s1, w1) \<Longrightarrow>
   New P U G c params w = (Inr s1, w1)"
  by (simp add: New_def fetchStaticValues_def)

text \<open>A service comes out of the constructor only through a probe that succeeded.\<close>

lemma New_ok_cases:
  assumes "New P U G c params w = (Inr s, w')"
  shows "\<exists>ps b t. P params = Inr ps
           \<and> U (if \<not> prefix ''http'' (parameters.address ps)
                 then ''http://'' @ parameters.address ps
                 else parameters.address ps) = Inr b
           \<and> G c (new_Service c b ps, w) = (Inr t, s, w')"
proof (cases "P params")
  case (Inl err)
  with assms show ?thesis
    by (simp add: New_bad_parameters)
next
  case ps: (Inr ps)
  let ?a = "if \<not> prefix ''http'' (parameters.address ps)
            then ''http://'' @ parameters.address ps else parameters.address ps"
  show ?thesis
  proof (cases "U ?a")
    case (Inl err)
    with assms ps show ?thesis
      by (simp add: New_bad_URL)
  next
    case b: (Inr b)
    obtain r s1 w1 where probe: "G c (new_Service c b ps, w) = (r, s1, w1)"
      by (metis prod_cases3)
    show ?thesis
    proof (cases r)
      case (Inl err)
      with assms ps b probe show ?thesis
        by (simp add: New_probe_failed)
    next
      case (Inr t)
      with probe have ok: "G c (new_Service c b ps, w) = (Inr t, s1, w1)"
        by simp
      from ps b ok have "New P U G c params w = (Inr s1, w1)"
        by (simp add: New_probe_ok)
      with assms have "s1 = s" "w1 = w'"
        by simp_all
      with ps b ok show ?thesis
        by blast
    qed
  qed
qed

lemma New_ok_fields:
  assumes "New P U G c params w = (Inr s, w')"
    and "P params = Inr ps"
    and "\<And>s0 w0. Service.address (fst (snd (G c (s0, w0)))) = Service.address s0"
  shows "Service.address s = parameters.address ps"
proof -
  from New_ok_cases [OF assms(1)] assms(2)
  obtain b t where "G c (new_Service c b ps, w) = (Inr t, s, w')"
    by auto
  then have "Service.address s = Service.address (fst (snd (G c (new_Service c b ps, w))))"
    by simp
  with assms(3) show ?thesis
    by (simp add: new_Service_def)
qed

lemma New_ok_base:
  assumes "New P U G c params w = (Inr s, w')"
    and "P params = Inr ps"
    and "\<And>s0 w0. base (fst (snd (G c (s0, w0)))) = base s0"
  shows "U (if \<not> prefix ''http'' (parameters.address ps)
            then ''http://'' @ parameters.address ps
            else parameters.address ps) = Inr (base s)"
proof -
  from New_ok_cases [OF assms(1)] assms(2)
  obtain b t where b: "U (if \<not> prefix ''http'' (parameters.address ps)
            then ''http://'' @ parameters.address ps
            else parameters.address ps) = Inr b"
    and "G c (new_Service c b ps, w) = (Inr t, s, w')"
    by auto
  then have "base s = base (fst (snd (G c (new_Service c b ps, w))))"
    by simp
  with assms(3) have "base s = b"
    by (simp add: new_Service_def)
  with b show ?thesis
    by simp
qed


subsection \<open>The stand-ins, evaluated\<close>

lemma GenesisTime_keeps_address:
  "address (fst (snd (GenesisTime c (s0, w0)))) = address s0
   \<and> base (fst (snd (GenesisTime c (s0, w0)))) = base s0"
  by (simp add: GenesisTime_def split: option.splits)

lemma teku_parameters_ok: "parseAndCheckParameters teku_parameters = Inr teku_parameters"
  by (simp add: parseAndCheckParameters_def teku_parameters_def)

lemma teku_address: "parameters.address teku_parameters = ''localhost:5051''"
  by (simp add: teku_parameters_def)

lemma teku_url:
  "url_Parse (if \<not> prefix ''http'' (parameters.address teku_parameters)
              then ''http://'' @ parameters.address teku_parameters
              else parameters.address teku_parameters) = Inr (URL ''http://localhost:5051'')"
  by (simp add: url_Parse_def teku_address)

lemma probe_unreachable:
  "GenesisTime c (new_Service c b ps, False) =
     (Inl (errors_New ''connection refused''), new_Service c b ps, False)"
  by (simp add: GenesisTime_def new_Service_def)

lemma probe_reachable:
  "GenesisTime c (new_Service c b ps, True) =
     (Inr 1606824023, new_Service c b ps\<lparr>genesisTime := Some 1606824023\<rparr>, True)"
  by (simp add: GenesisTime_def new_Service_def)

lemma New_teku_up:
  "New parseAndCheckParameters url_Parse GenesisTime Background teku_parameters True =
     (Inr (new_Service Background (URL ''http://localhost:5051'') teku_parameters
             \<lparr>genesisTime := Some 1606824023\<rparr>), True)"
  using teku_parameters_ok teku_url probe_reachable
  by (rule New_probe_ok)

lemma busy_service_free: "beaconChainHeadUpdatedMutex busy_service = Unlocked"
  by (simp add: busy_service_def new_Service_def)

lemma busy_service_handlers:
  "beaconChainHeadUpdatedHandlers busy_service = [Handler 1, Handler 2]"
  by (simp add: busy_service_def)

subsection \<open>Shutdown\<close>

lemma close_free:
  "beaconChainHeadUpdatedMutex s = Unlocked \<Longrightarrow>
   close s = Some (s\<lparr>beaconChainHeadUpdatedHandlers := []\<rparr>)"
  by (simp add: close_def Lock_def Unlock_def)

lemma close_held: "beaconChainHeadUpdatedMutex s \<noteq> Unlocked \<Longrightarrow> close s = None"
  by (simp add: close_def Lock_def)

lemma close_times_free:
  "beaconChainHeadUpdatedMutex s = Unlocked \<Longrightarrow>
   close_times (Suc n) s = Some (s\<lparr>beaconChainHeadUpdatedHandlers := []\<rparr>)"
proof (induction n arbitrary: s)
  case 0
  then show ?case
    by (simp add: close_free)
next
  case (Suc n)
  let ?s = "s\<lparr>beaconChainHeadUpdatedHandlers := []\<rparr>"
  have "beaconChainHeadUpdatedMutex ?s = Unlocked"
    using Suc.prems by simp
  from Suc.IH [OF this] have "close_times (Suc n) ?s = Some ?s"
    by simp
  with Suc.prems show ?case
    by (simp add: close_free)
qed

subsection \<open>The constructor probes the node\<close>

text \<open>
  Claim C5. Whenever \<^verbatim>\<open>New\<close> returns a service, the parameters were accepted, the
  URL was parsed, and \<^verbatim>\<open>GenesisTime\<close> was called on the freshly built service and
  returned a time; the service returned is the one this call left behind. When that call
  fails, \<^verbatim>\<open>New\<close> returns the error, wrapped with "failed to fetch genesis time" and
  then "failed to confirm node connection", and no service: the result is an error or a
  service, never both.
\<close>

theorem New_probes_before_returning:
  "(New P U G c params w = (Inr s, w') \<longrightarrow>
      (\<exists>ps b t. P params = Inr ps
         \<and> U (if \<not> prefix ''http'' (parameters.address ps)
               then ''http://'' @ parameters.address ps
               else parameters.address ps) = Inr b
         \<and> G c (new_Service c b ps, w) = (Inr t, s, w')))
   \<and> (P params = Inr ps
       \<and> U (if \<not> prefix ''http'' (parameters.address ps)
             then ''http://'' @ parameters.address ps
             else parameters.address ps) = Inr b
       \<and> G c (new_Service c b ps, w) = (Inl err, s'', w'') \<longrightarrow>
      New P U G c params w =
        (Inl (errors_Wrap (errors_Wrap err ''failed to fetch genesis time'')
                ''failed to confirm node connection''), w''))"
proof (intro conjI impI)
  assume "New P U G c params w = (Inr s, w')"
  then show "\<exists>ps b t. P params = Inr ps
         \<and> U (if \<not> prefix ''http'' (parameters.address ps)
               then ''http://'' @ parameters.address ps
               else parameters.address ps) = Inr b
         \<and> G c (new_Service c b ps, w) = (Inr t, s, w')"
    by (rule New_ok_cases)
next
  assume "P params = Inr ps
       \<and> U (if \<not> prefix ''http'' (parameters.address ps)
             then ''http://'' @ parameters.address ps
             else parameters.address ps) = Inr b
       \<and> G c (new_Service c b ps, w) = (Inl err, s'', w'')"
  then show "New P U G c params w =
        (Inl (errors_Wrap (errors_Wrap err ''failed to fetch genesis time'')
                ''failed to confirm node connection''), w'')"
    by (simp add: New_probe_failed)
qed


text \<open>The theorem at a node that can be reached and at one that cannot.\<close>

theorem New_probes_before_returning_witness:
  "New parseAndCheckParameters url_Parse GenesisTime Background teku_parameters True =
     (Inr (new_Service Background (URL ''http://localhost:5051'') teku_parameters
             \<lparr>genesisTime := Some 1606824023\<rparr>), True)
   \<and> (\<exists>ps b t. parseAndCheckParameters teku_parameters = Inr ps
         \<and> url_Parse (if \<not> prefix ''http'' (parameters.address ps)
                       then ''http://'' @ parameters.address ps
                       else parameters.address ps) = Inr b
         \<and> GenesisTime Background (new_Service Background b ps, True) =
             (Inr t, new_Service Background (URL ''http://localhost:5051'') teku_parameters
                       \<lparr>genesisTime := Some 1606824023\<rparr>, True))
   \<and> New parseAndCheckParameters url_Parse GenesisTime Background teku_parameters False =
       (Inl (errors_Wrap (errors_Wrap (errors_New ''connection refused'')
                            ''failed to fetch genesis time'')
               ''failed to confirm node connection''), False)"
proof -
  have probed: "\<exists>ps b t. parseAndCheckParameters teku_parameters = Inr ps
         \<and> url_Parse (if \<not> prefix ''http'' (parameters.address ps)
                       then ''http://'' @ parameters.address ps
                       else parameters.address ps) = Inr b
         \<and> GenesisTime Background (new_Service Background b ps, True) =
             (Inr t, new_Service Background (URL ''http://localhost:5051'') teku_parameters
                       \<lparr>genesisTime := Some 1606824023\<rparr>, True)"
    using New_probes_before_returning [where P = parseAndCheckParameters and U = url_Parse
        and G = GenesisTime and c = Background and params = teku_parameters and w = True
        and w' = True
        and s = "new_Service Background (URL ''http://localhost:5051'') teku_parameters
                   \<lparr>genesisTime := Some 1606824023\<rparr>", THEN conjunct1] New_teku_up
    by simp
  have down: "New parseAndCheckParameters url_Parse GenesisTime Background teku_parameters False =
       (Inl (errors_Wrap (errors_Wrap (errors_New ''connection refused'')
                            ''failed to fetch genesis time'')
               ''failed to confirm node connection''), False)"
    using New_probes_before_returning [where P = parseAndCheckParameters and U = url_Parse
        and G = GenesisTime and c = Background and params = teku_parameters and w = False
        and ps = teku_parameters and b = "URL ''http://localhost:5051''"
        and err = "errors_New ''connection refused''" and w'' = False
        and s'' = "new_Service Background (URL ''http://localhost:5051'') teku_parameters",
        THEN conjunct2]
      teku_parameters_ok teku_url probe_unreachable
    by simp
  from New_teku_up probed down show ?thesis
    by (intro conjI)
qed

subsection \<open>Closing clears the handlers\<close>

text \<open>
  Claim C7. With the mutex free, \<open>close\<close> returns and leaves the service with an empty
  list of handlers, the mutex free again and every other field as it was; invoking it
  any number of times, once or more, gives the same service as invoking it once, and a
  closed service is a fixed point of \<open>close\<close>. While a reader or a writer holds the
  mutex, \<open>close\<close> does not get past \<^verbatim>\<open>Lock\<close>, so the handlers are replaced only
  under the write lock.
\<close>

theorem close_clears_handlers_and_is_idempotent:
  "(beaconChainHeadUpdatedMutex s = Unlocked \<longrightarrow>
      close s = Some (s\<lparr>beaconChainHeadUpdatedHandlers := []\<rparr>)
      \<and> close_times (Suc n) s = close s
      \<and> (\<forall>s'. close s = Some s' \<longrightarrow>
            beaconChainHeadUpdatedHandlers s' = [] \<and> close s' = Some s'))
   \<and> (beaconChainHeadUpdatedMutex s \<noteq> Unlocked \<longrightarrow> close s = None)"
proof (intro conjI impI allI)
  assume free: "beaconChainHeadUpdatedMutex s = Unlocked"
  then show "close s = Some (s\<lparr>beaconChainHeadUpdatedHandlers := []\<rparr>)"
    by (rule close_free)
  from free show "close_times (Suc n) s = close s"
    by (simp only: close_times_free close_free)
next
  fix s'
  assume free: "beaconChainHeadUpdatedMutex s = Unlocked" and once: "close s = Some s'"
  then have s': "s' = s\<lparr>beaconChainHeadUpdatedHandlers := []\<rparr>"
    by (simp add: close_free)
  then show "beaconChainHeadUpdatedHandlers s' = []"
    by simp
  from s' free have "beaconChainHeadUpdatedMutex s' = Unlocked"
    by simp
  then have "close s' = Some (s'\<lparr>beaconChainHeadUpdatedHandlers := []\<rparr>)"
    by (rule close_free)
  with s' show "close s' = Some s'"
    by simp
next
  assume "beaconChainHeadUpdatedMutex s \<noteq> Unlocked"
  then show "close s = None"
    by (rule close_held)
qed

text \<open>
  The theorem at a service with two handlers: none are left after one call and after
  three; and at the same service while a reader holds the mutex.
\<close>

theorem close_clears_handlers_and_is_idempotent_witness:
  "beaconChainHeadUpdatedMutex busy_service = Unlocked
   \<and> beaconChainHeadUpdatedHandlers busy_service = [Handler 1, Handler 2]
   \<and> close busy_service = Some (busy_service\<lparr>beaconChainHeadUpdatedHandlers := []\<rparr>)
   \<and> close_times 3 busy_service = Some (busy_service\<lparr>beaconChainHeadUpdatedHandlers := []\<rparr>)
   \<and> close (busy_service\<lparr>beaconChainHeadUpdatedMutex := ReadLocked 1\<rparr>) = None"
proof -
  note inst = close_clears_handlers_and_is_idempotent [where s = busy_service and n = 2,
      THEN conjunct1, rule_format, OF busy_service_free]
  have once: "close busy_service = Some (busy_service\<lparr>beaconChainHeadUpdatedHandlers := []\<rparr>)"
    using inst [THEN conjunct1] .
  have "close_times (Suc 2) busy_service = close busy_service"
    using inst [THEN conjunct2, THEN conjunct1] .
  with once have thrice:
    "close_times 3 busy_service = Some (busy_service\<lparr>beaconChainHeadUpdatedHandlers := []\<rparr>)"
    by (simp only: eval_nat_numeral)
  have held: "close (busy_service\<lparr>beaconChainHeadUpdatedMutex := ReadLocked 1\<rparr>) = None"
    using close_clears_handlers_and_is_idempotent
      [where s = "busy_service\<lparr>beaconChainHeadUpdatedMutex := ReadLocked 1\<rparr>", THEN conjunct2]
    by simp
  from busy_service_free busy_service_handlers once thrice held show ?thesis
    by (intro conjI)
qed

subsection \<open>Name and address\<close>

text \<open>
  Claim C8. \<open>Name\<close> is the text "Teku (HTTP)" for every service, and \<open>Address\<close> is the
  service's address field; both are functions of the service alone. For a service that
  \<^verbatim>\<open>New\<close> returned, the address is the one in the caller's parameters, provided that
  \<^verbatim>\<open>GenesisTime\<close> leaves the address field alone.
\<close>

theorem Name_and_Address:
  "Name s = ''Teku (HTTP)''
   \<and> Address s = Service.address s
   \<and> (New P U G c params w = (Inr s', w') \<and> P params = Inr ps
       \<and> (\<forall>s0 w0. Service.address (fst (snd (G c (s0, w0)))) = Service.address s0)
       \<longrightarrow> Address s' = parameters.address ps)"
proof (intro conjI impI)
  show "Name s = ''Teku (HTTP)''"
    by (simp add: Name_def)
  show "Address s = Service.address s"
    by (simp add: Address_def)
next
  assume h: "New P U G c params w = (Inr s', w') \<and> P params = Inr ps
       \<and> (\<forall>s0 w0. Service.address (fst (snd (G c (s0, w0)))) = Service.address s0)"
  then have "Service.address s' = parameters.address ps"
    using New_ok_fields [of P U G c params w s' w' ps] by blast
  then show "Address s' = parameters.address ps"
    by (simp add: Address_def)
qed

text \<open>The theorem at the service built for the address localhost:5051.\<close>

theorem Name_and_Address_witness:
  "New parseAndCheckParameters url_Parse GenesisTime Background teku_parameters True =
     (Inr (new_Service Background (URL ''http://localhost:5051'') teku_parameters
             \<lparr>genesisTime := Some 1606824023\<rparr>), True)
   \<and> Name (new_Service Background (URL ''http://localhost:5051'') teku_parameters
             \<lparr>genesisTime := Some 1606824023\<rparr>) = ''Teku (HTTP)''
   \<and> Address (new_Service Background (URL ''http://localhost:5051'') teku_parameters
             \<lparr>genesisTime := Some 1606824023\<rparr>) = ''localhost:5051''"
proof -
  note inst = Name_and_Address [where P = parseAndCheckParameters and U = url_Parse
      and G = GenesisTime and c = Background and params = teku_parameters and w = True
      and w' = True and ps = teku_parameters
      and s = "new_Service Background (URL ''http://localhost:5051'') teku_parameters
                 \<lparr>genesisTime := Some 1606824023\<rparr>"
      and s' = "new_Service Background (URL ''http://localhost:5051'') teku_parameters
                 \<lparr>genesisTime := Some 1606824023\<rparr>"]
  have name: "Name (new_Service Background (URL ''http://localhost:5051'') teku_parameters
             \<lparr>genesisTime := Some 1606824023\<rparr>) = ''Teku (HTTP)''"
    using inst [THEN conjunct1] .
  have addr: "Address (new_Service Background (URL ''http://localhost:5051'') teku_parameters
             \<lparr>genesisTime := Some 1606824023\<rparr>) = ''localhost:5051''"
    using inst [THEN conjunct2, THEN conjunct2] New_teku_up teku_parameters_ok
      GenesisTime_keeps_address teku_address
    by simp
  from New_teku_up name addr show ?thesis
    by (intro conjI)
qed

subsection \<open>The scheme is added to the base URL only\<close>

text \<open>
  Claim C9. When the caller's address does not start with "http", the base URL of the
  service that \<^verbatim>\<open>New\<close> returns is the parse of "http://" followed by the address,
  while \<open>Address\<close> returns the address as the caller gave it, without the scheme;
  provided that \<^verbatim>\<open>GenesisTime\<close> leaves the address and the base URL alone.
\<close>

theorem New_prepends_scheme_for_base_only:
  assumes "New P U G c params w = (Inr s, w')"
    and "P params = Inr ps"
    and "\<not> prefix ''http'' (parameters.address ps)"
    and "\<And>s0 w0. Service.address (fst (snd (G c (s0, w0)))) = Service.address s0"
    and "\<And>s0 w0. base (fst (snd (G c (s0, w0)))) = base s0"
  shows "U (''http://'' @ parameters.address ps) = Inr (base s)
       \<and> Address s = parameters.address ps
       \<and> Address s \<noteq> ''http://'' @ parameters.address ps"
proof -
  from New_ok_base [OF assms(1) assms(2) assms(5)] assms(3)
  have b: "U (''http://'' @ parameters.address ps) = Inr (base s)"
    by simp
  from New_ok_fields [OF assms(1) assms(2) assms(4)]
  have a: "Address s = parameters.address ps"
    by (simp add: Address_def)
  then have "Address s \<noteq> ''http://'' @ parameters.address ps"
    by simp
  with a b show ?thesis
    by simp
qed

text \<open>The theorem at the address localhost:5051.\<close>

theorem New_prepends_scheme_for_base_only_witness:
  "New parseAndCheckParameters url_Parse GenesisTime Background teku_parameters True =
     (Inr (new_Service Background (URL ''http://localhost:5051'') teku_parameters
             \<lparr>genesisTime := Some 1606824023\<rparr>), True)
   \<and> \<not> prefix ''http'' (parameters.address teku_parameters)
   \<and> url_Parse (''http://'' @ ''localhost:5051'') =
       Inr (base (new_Service Background (URL ''http://localhost:5051'') teku_parameters
                    \<lparr>genesisTime := Some 1606824023\<rparr>))
   \<and> Address (new_Service Background (URL ''http://localhost:5051'') teku_parameters
                \<lparr>genesisTime := Some 1606824023\<rparr>) = ''localhost:5051''"
proof -
  have plain: "\<not> prefix ''http'' (parameters.address teku_parameters)"
    by (simp add: teku_address)
  have keep_a: "Service.address (fst (snd (GenesisTime Background (s0, w0)))) = Service.address s0"
    for s0 w0
    by (simp add: GenesisTime_keeps_address)
  have keep_b: "base (fst (snd (GenesisTime Background (s0, w0)))) = base s0" for s0 w0
    by (simp add: GenesisTime_keeps_address)
  note inst = New_prepends_scheme_for_base_only [OF New_teku_up teku_parameters_ok plain
      keep_a keep_b]
  have b: "url_Parse (''http://'' @ ''localhost:5051'') =
       Inr (base (new_Service Background (URL ''http://localhost:5051'') teku_parameters
                    \<lparr>genesisTime := Some 1606824023\<rparr>))"
    using inst [THEN conjunct1] by (simp add: teku_address)
  have a: "Address (new_Service Background (URL ''http://localhost:5051'') teku_parameters
                \<lparr>genesisTime := Some 1606824023\<rparr>) = ''localhost:5051''"
    using inst [THEN conjunct2, THEN conjunct1] by (simp add: teku_address)
  from New_teku_up plain b a show ?thesis
    by (intro conjI)
qed

end
